theory Spec2Isabelle
  imports Complex_Main
begin

unbundle bit_operations_syntax

section \<open>JavaScript values, errors and completions\<close>

text \<open>
  The component \<^verbatim>\<open>abTestHeroBanner.js\<close> is a Lightning web component. Its methods read
  and write three things outside the instance: the browser's \<^verbatim>\<open>localStorage\<close>, the
  pseudo-random generator \<^verbatim>\<open>Math.random\<close> and the imported Apex method \<^verbatim>\<open>logAction\<close>.
  The model passes the instance (a record of its fields) and the browser (a record of
  everything outside it) through every method and returns both.

  A method either returns or throws. Statements executed before a throw keep their effect,
  so both completions carry the state that was reached.
\<close>

datatype js_error = SecurityError | QuotaExceededError | SyntaxError | TypeError

datatype 'a completion = Returns 'a | Throws js_error 'a

fun state_of :: "'a completion \<Rightarrow> 'a" where
  "state_of (Returns s) = s"
| "state_of (Throws e s) = s"

text \<open>
  Values of the dynamically typed content reference: what \<^verbatim>\<open>JSON.parse\<close> can produce, and
  \<^verbatim>\<open>undefined\<close>. An object is a plain data object, its own properties listed with the most
  recently defined first.
\<close>

datatype jsval = JUndefined | JNull | JBool bool | JNum real | JStr string
  | JArr "jsval list" | JObj "(string \<times> jsval) list"

text \<open>
  A configuration property or a storage result that holds a string or nothing
  (\<^verbatim>\<open>undefined\<close>, or \<^verbatim>\<open>null\<close> from \<^verbatim>\<open>getItem\<close>) is a \<open>string option\<close>. JavaScript's
  truthiness test (\<^verbatim>\<open>!x\<close>, \<^verbatim>\<open>x && y\<close>, \<^verbatim>\<open>x || y\<close>) takes the nothing and the empty string as
  false.
\<close>

fun truthy :: "string option \<Rightarrow> bool" where
  "truthy None = False"
| "truthy (Some s) = (s \<noteq> [])"

text \<open>String coercion of such a value, in \<^verbatim>\<open>+\<close> and in template literals.\<close>

fun to_str :: "string option \<Rightarrow> string" where
  "to_str None = ''undefined''"
| "to_str (Some s) = s"

section \<open>The browser: localStorage, Math.random, the remote logger, the console\<close>

text \<open>
  \<^verbatim>\<open>localStorage\<close> is a string-keyed store. The Web Storage interface can fail in two ways
  the component can meet: reading the \<^verbatim>\<open>localStorage\<close> attribute throws a
  \<^verbatim>\<open>SecurityError\<close> when the origin is denied storage, and \<^verbatim>\<open>setItem\<close> throws a
  \<^verbatim>\<open>QuotaExceededError\<close> when the value cannot be stored. \<^verbatim>\<open>getItem\<close> of a key that is not
  there gives \<^verbatim>\<open>null\<close>.
\<close>

datatype storage_mode = Available | QuotaExhausted | AccessDenied

text \<open>A call of \<^verbatim>\<open>logAction\<close> with its argument object, and what became of its promise.\<close>

record log_call =
  log_testId :: "string option"
  log_variant :: "string option"
  log_actionType :: string
  log_visitorId :: "string option"

datatype outcome = Pending | Fulfilled | Rejected string

record browser =
  items :: "string \<rightharpoonup> string"
  mode :: storage_mode
  draws :: nat
  calls :: "(log_call \<times> outcome) list"
  console :: "(string \<times> string) list"

definition getItem :: "browser \<Rightarrow> string \<Rightarrow> js_error + string option" where
  "getItem b k = (if mode b = AccessDenied then Inl SecurityError else Inr (items b k))"

definition setItem :: "browser \<Rightarrow> string \<Rightarrow> string \<Rightarrow> js_error + browser" where
  "setItem b k v =
     (case mode b of
        AccessDenied \<Rightarrow> Inl SecurityError
      | QuotaExhausted \<Rightarrow> Inl QuotaExceededError
      | Available \<Rightarrow> Inr (b\<lparr>items := (items b)(k \<mapsto> v)\<rparr>))"

text \<open>
  What the component imports or finds built in, and does not define: the site prefix
  \<^verbatim>\<open>basePath\<close> of \<^verbatim>\<open>@salesforce/community/basePath\<close>, \<^verbatim>\<open>JSON.parse\<close>, the conversion of a
  number to a string, and \<^verbatim>\<open>Math.random\<close>, given as the sequence of numbers its successive
  calls return (each a double in the interval from 0 to 1, 1 excluded, read as a real).
  The browser counts the calls made so far in \<open>draws\<close>.
\<close>

record platform =
  basePath :: "string option"
  JSON_parse :: "string \<Rightarrow> js_error + jsval"
  Number_toString :: "real \<Rightarrow> string"
  Math_random :: "nat \<Rightarrow> real"

definition random_draw :: "platform \<Rightarrow> browser \<Rightarrow> real \<times> browser" where
  "random_draw env b = (Math_random env (draws b), b\<lparr>draws := Suc (draws b)\<rparr>)"

section \<open>The component\<close>

definition STORAGE_KEY_ASSIGNMENT :: string where
  "STORAGE_KEY_ASSIGNMENT = ''AB_TEST_ASSIGNMENT_''"

definition STORAGE_KEY_LOGGED :: string where
  "STORAGE_KEY_LOGGED = ''AB_LOGGED_''"

definition STORAGE_KEY_VISITOR :: string where
  "STORAGE_KEY_VISITOR = ''DXFORCE_VISITOR_ID''"

text \<open>
  The fields of an instance: the public properties, \<open>previewMode\<close> for the backing field
  \<^verbatim>\<open>_previewMode\<close> of the accessor pair, and the two internal fields.
\<close>

record component =
  testId :: "string option"
  imageHeight :: "real option"
  previewMode :: string
  variantA_ImageContent :: jsval
  variantA_ImagePosition :: "string option"
  variantA_Title :: "string option"
  variantA_Description :: "string option"
  variantA_ButtonLabel :: "string option"
  variantA_ButtonUrl :: "string option"
  variantB_ImageContent :: jsval
  variantB_ImagePosition :: "string option"
  variantB_Title :: "string option"
  variantB_Description :: "string option"
  variantB_ButtonLabel :: "string option"
  variantB_ButtonUrl :: "string option"
  assignedVariant :: "string option"
  visitorId :: "string option"

subsection \<open>Visitor identity\<close>

text \<open>
  \<^verbatim>\<open>x | 0\<close> converts a number to a 32-bit signed integer: the fraction is dropped and the
  integer wraps modulo \<open>2 ^ 32\<close>. The product \<^verbatim>\<open>Math.random() * 16\<close> is exact in doubles (a
  power of two), so the real product is the double's value.
\<close>

definition ToInt32 :: "real \<Rightarrow> int" where
  "ToInt32 x =
     (let n = (if x < 0 then \<lceil>x\<rceil> else \<lfloor>x\<rfloor>); m = n mod 2 ^ 32
      in if 2 ^ 31 \<le> m then m - 2 ^ 32 else m)"

definition hex_digit :: "nat \<Rightarrow> char" where
  "hex_digit n = ''0123456789abcdef'' ! (n mod 16)"

function digits16 :: "nat \<Rightarrow> string" where
  "digits16 n = (if n < 16 then [hex_digit n] else digits16 (n div 16) @ [hex_digit (n mod 16)])"
  by pat_completeness auto
termination
  by (relation "measure (\<lambda>n. n)") auto

text \<open>\<^verbatim>\<open>v.toString(16)\<close> of an integer \<open>v\<close>.\<close>

definition toString16 :: "int \<Rightarrow> string" where
  "toString16 v = (if v < 0 then CHR ''-'' # digits16 (nat (- v)) else digits16 (nat v))"

text \<open>
  \<^verbatim>\<open>template.replace(/[xy]/g, function(c) {...})\<close>: every \<^verbatim>\<open>x\<close> and \<^verbatim>\<open>y\<close> of the template,
  from left to right, is replaced by what the callback returns for it; the callback draws
  one random number per call.
\<close>

fun replace_xy :: "platform \<Rightarrow> string \<Rightarrow> browser \<Rightarrow> string \<times> browser" where
  "replace_xy env [] b = ([], b)"
| "replace_xy env (c # cs) b =
     (if c = CHR ''x'' \<or> c = CHR ''y'' then
        (let (u, b1) = random_draw env b;
             r = ToInt32 (u * 16);
             v = (if c = CHR ''x'' then r else (r AND 3) OR 8);
             (rest, b2) = replace_xy env cs b1
         in (toString16 v @ rest, b2))
      else
        (let (rest, b2) = replace_xy env cs b in (c # rest, b2)))"

definition generateUUID :: "platform \<Rightarrow> browser \<Rightarrow> string \<times> browser" where
  "generateUUID env b = replace_xy env ''xxxxxxxx-xxxx-4xxx-yxxx-xxxxxxxxxxxx'' b"

definition initializeVisitorId ::
  "platform \<Rightarrow> component \<Rightarrow> browser \<Rightarrow> (component \<times> browser) completion" where
  "initializeVisitorId env c b =
     (case getItem b STORAGE_KEY_VISITOR of
        Inl e \<Rightarrow> Throws e (c, b)
      | Inr vid \<Rightarrow>
          if \<not> truthy vid then
            (let (uuid, b1) = generateUUID env b in
             (case setItem b1 STORAGE_KEY_VISITOR uuid of
                Inl e \<Rightarrow> Throws e (c, b1)
              | Inr b2 \<Rightarrow> Returns (c\<lparr>visitorId := Some uuid\<rparr>, b2)))
          else Returns (c\<lparr>visitorId := vid\<rparr>, b))"

subsection \<open>Assignment\<close>

definition initializeAssignment ::
  "platform \<Rightarrow> component \<Rightarrow> browser \<Rightarrow> (component \<times> browser) completion" where
  "initializeAssignment env c b =
     (if previewMode c = ''Force A'' then Returns (c\<lparr>assignedVariant := Some ''A''\<rparr>, b)
      else if previewMode c = ''Force B'' then Returns (c\<lparr>assignedVariant := Some ''B''\<rparr>, b)
      else if \<not> truthy (testId c) then Returns (c\<lparr>assignedVariant := Some ''A''\<rparr>, b)
      else
        (let key = STORAGE_KEY_ASSIGNMENT @ to_str (testId c) in
         (case getItem b key of
            Inl e \<Rightarrow> Throws e (c, b)
          | Inr storedAssignment \<Rightarrow>
              if truthy storedAssignment
              then Returns (c\<lparr>assignedVariant := storedAssignment\<rparr>, b)
              else
                (let (u, b1) = random_draw env b;
                     c1 = c\<lparr>assignedVariant := Some (if u < 1 / 2 then ''A'' else ''B'')\<rparr>
                 in (case setItem b1 key (to_str (assignedVariant c1)) of
                       Inl e \<Rightarrow> Throws e (c1, b1)
                     | Inr b2 \<Rightarrow> Returns (c1, b2))))))"

text \<open>The setter of \<^verbatim>\<open>previewMode\<close> stores the value and resolves the assignment again.\<close>

definition set_previewMode ::
  "platform \<Rightarrow> string \<Rightarrow> component \<Rightarrow> browser \<Rightarrow> (component \<times> browser) completion" where
  "set_previewMode env v c b = initializeAssignment env (c\<lparr>previewMode := v\<rparr>) b"

definition connectedCallback ::
  "platform \<Rightarrow> component \<Rightarrow> browser \<Rightarrow> (component \<times> browser) completion" where
  "connectedCallback env c b =
     (case initializeVisitorId env c b of
        Throws e s \<Rightarrow> Throws e s
      | Returns (c1, b1) \<Rightarrow> initializeAssignment env c1 b1)"

subsection \<open>Metric reporting\<close>

text \<open>
  \<^verbatim>\<open>logAction(args)\<close> sends the call and returns a promise at once; the component attaches
  a rejection handler and goes on. The browser records the call as pending. The promise
  settles in a later turn of the event loop (\<open>settle\<close>); on rejection the handler writes one
  line to the console and does nothing else.
\<close>

definition logAction :: "log_call \<Rightarrow> browser \<Rightarrow> browser" where
  "logAction args b = b\<lparr>calls := calls b @ [(args, Pending)]\<rparr>"

definition settle :: "nat \<Rightarrow> outcome \<Rightarrow> browser \<Rightarrow> browser" where
  "settle i r b =
     (if i < length (calls b) \<and> snd (calls b ! i) = Pending \<and> r \<noteq> Pending then
        (let b1 = b\<lparr>calls := (calls b)[i := (fst (calls b ! i), r)]\<rparr> in
         (case r of
            Rejected err \<Rightarrow> b1\<lparr>console := console b1 @ [(''[AB Test] Logging failed'', err)]\<rparr>
          | _ \<Rightarrow> b1))
      else b)"

definition tryLogMetric ::
  "component \<Rightarrow> browser \<Rightarrow> string \<Rightarrow> (component \<times> browser) completion" where
  "tryLogMetric c b actionType =
     (let logKey = STORAGE_KEY_LOGGED @ to_str (testId c) @ ''_'' @ actionType in
      (case getItem b logKey of
         Inl e \<Rightarrow> Throws e (c, b)
       | Inr hasLogged \<Rightarrow>
           if \<not> truthy hasLogged then
             (let b1 = logAction \<lparr>log_testId = testId c, log_variant = assignedVariant c,
                                  log_actionType = actionType, log_visitorId = visitorId c\<rparr> b
              in (case setItem b1 logKey ''true'' of
                    Inl e \<Rightarrow> Throws e (c, b1)
                  | Inr b2 \<Rightarrow> Returns (c, b2)))
           else Returns (c, b)))"

definition renderedCallback :: "component \<Rightarrow> browser \<Rightarrow> (component \<times> browser) completion" where
  "renderedCallback c b =
     (if truthy (assignedVariant c) \<and> truthy (testId c) \<and> previewMode c = ''Auto''
      then tryLogMetric c b ''View''
      else Returns (c, b))"

definition handleButtonClick :: "component \<Rightarrow> browser \<Rightarrow> (component \<times> browser) completion" where
  "handleButtonClick c b =
     (if truthy (assignedVariant c) \<and> truthy (testId c) \<and> previewMode c = ''Auto''
      then tryLogMetric c b ''Click''
      else Returns (c, b))"

subsection \<open>The life of a page\<close>

text \<open>
  What can happen to an instance and its browser, one event at a time: the framework
  connects the instance, renders it, the visitor clicks the button, the host sets the preview
  mode, a pending remote call settles, or the page is loaded again (a new instance, with any
  configuration, over the same browser). An exception leaves a callback with the state it
  reached, and the page goes on from there.
\<close>

datatype event = Connected | Rendered | Clicked | PreviewModeSet string
  | Settled nat outcome | Reloaded component

fun fire :: "platform \<Rightarrow> event \<Rightarrow> component \<times> browser \<Rightarrow> (component \<times> browser) completion" where
  "fire env Connected (c, b) = connectedCallback env c b"
| "fire env Rendered (c, b) = renderedCallback c b"
| "fire env Clicked (c, b) = handleButtonClick c b"
| "fire env (PreviewModeSet v) (c, b) = set_previewMode env v c b"
| "fire env (Settled i r) (c, b) = Returns (c, settle i r b)"
| "fire env (Reloaded c') (c, b) = Returns (c', b)"

fun run :: "platform \<Rightarrow> event list \<Rightarrow> component \<times> browser \<Rightarrow> component \<times> browser" where
  "run env [] s = s"
| "run env (ev # evs) s = run env evs (state_of (fire env ev s))"

subsection \<open>Content keys and URLs\<close>

text \<open>Truthiness of a value. (A real is never NaN, the one falsy number besides zero.)\<close>

fun truthy_val :: "jsval \<Rightarrow> bool" where
  "truthy_val JUndefined = False"
| "truthy_val JNull = False"
| "truthy_val (JBool t) = t"
| "truthy_val (JNum x) = (x \<noteq> 0)"
| "truthy_val (JStr s) = (s \<noteq> [])"
| "truthy_val (JArr xs) = True"
| "truthy_val (JObj ps) = True"

text \<open>
  \<^verbatim>\<open>ref.name\<close> for a name that no built-in prototype defines (\<^verbatim>\<open>contentKey\<close> and \<^verbatim>\<open>id\<close> are
  such names): a \<^verbatim>\<open>TypeError\<close> on \<^verbatim>\<open>null\<close> and \<^verbatim>\<open>undefined\<close>, the own property of an object,
  and \<^verbatim>\<open>undefined\<close> on everything else.
\<close>

fun get_property :: "jsval \<Rightarrow> string \<Rightarrow> js_error + jsval" where
  "get_property JUndefined k = Inl TypeError"
| "get_property JNull k = Inl TypeError"
| "get_property (JObj ps) k = Inr (case map_of ps k of None \<Rightarrow> JUndefined | Some v \<Rightarrow> v)"
| "get_property v k = Inr JUndefined"

definition extractContentKey :: "platform \<Rightarrow> jsval \<Rightarrow> jsval" where
  "extractContentKey env contentRef =
     (if \<not> truthy_val contentRef then JNull
      else
        (let caught = (case contentRef of JStr s \<Rightarrow> JStr s | _ \<Rightarrow> JNull) in
         (case (case contentRef of JStr s \<Rightarrow> JSON_parse env s | _ \<Rightarrow> Inr contentRef) of
            Inl e \<Rightarrow> caught
          | Inr ref \<Rightarrow>
              (case get_property ref ''contentKey'' of
                 Inl e \<Rightarrow> caught
               | Inr k \<Rightarrow>
                   if truthy_val k then k
                   else
                     (case get_property ref ''id'' of
                        Inl e \<Rightarrow> caught
                      | Inr i \<Rightarrow> if truthy_val i then i else JNull)))))"

text \<open>String coercion of a value in a template literal.\<close>

fun join_comma :: "string list \<Rightarrow> string" where
  "join_comma [] = []"
| "join_comma [s] = s"
| "join_comma (s # t # ss) = s @ '','' @ join_comma (t # ss)"

fun js_toString :: "platform \<Rightarrow> jsval \<Rightarrow> string" where
  "js_toString env JUndefined = ''undefined''"
| "js_toString env JNull = ''null''"
| "js_toString env (JBool t) = (if t then ''true'' else ''false'')"
| "js_toString env (JNum x) = Number_toString env x"
| "js_toString env (JStr s) = s"
| "js_toString env (JArr xs) =
     join_comma (map (\<lambda>x. if x = JUndefined \<or> x = JNull then [] else js_toString env x) xs)"
| "js_toString env (JObj ps) = ''[object Object]''"

text \<open>The result is a string or \<^verbatim>\<open>null\<close> (\<open>None\<close>).\<close>

definition constructCmsUrl :: "platform \<Rightarrow> jsval \<Rightarrow> string option" where
  "constructCmsUrl env contentKey =
     (if \<not> truthy_val contentKey then None
      else
        (let sitePrefix =
               (if truthy (basePath env) \<and> basePath env \<noteq> Some [] then to_str (basePath env)
                else [])
         in Some (sitePrefix @ ''/sfsites/c/cms/delivery/media/'' @ js_toString env contentKey)))"

definition startsWith :: "string \<Rightarrow> string \<Rightarrow> bool" where
  "startsWith s p = (take (length p) s = p)"

text \<open>\<^verbatim>\<open>url.match(/^(http|https|mailto|tel):/)\<close> finds a match.\<close>

definition matches_scheme :: "string \<Rightarrow> bool" where
  "matches_scheme url =
     (startsWith url ''http:'' \<or> startsWith url ''https:'' \<or> startsWith url ''mailto:''
      \<or> startsWith url ''tel:'')"

definition resolveUrl :: "platform \<Rightarrow> string option \<Rightarrow> string" where
  "resolveUrl env url =
     (if \<not> truthy url then ''#''
      else if matches_scheme (to_str url) then to_str url
      else
        (let path = (if startsWith (to_str url) ''/'' then to_str url else ''/'' @ to_str url)
         in (if truthy (basePath env) then to_str (basePath env) else []) @ path))"

definition contentKeyA :: "platform \<Rightarrow> component \<Rightarrow> jsval" where
  "contentKeyA env c = extractContentKey env (variantA_ImageContent c)"

definition contentKeyB :: "platform \<Rightarrow> component \<Rightarrow> jsval" where
  "contentKeyB env c = extractContentKey env (variantB_ImageContent c)"

record display =
  imageUrl :: "string option"
  altText :: "string option"
  title :: "string option"
  description :: "string option"
  buttonLabel :: "string option"
  buttonUrl :: string
  imageStyle :: string

definition currentData :: "platform \<Rightarrow> component \<Rightarrow> display" where
  "currentData env c =
     (let isA = (assignedVariant c = Some ''A'');
          key = (if isA then contentKeyA env c else contentKeyB env c);
          title = (if isA then variantA_Title c else variantB_Title c);
          desc = (if isA then variantA_Description c else variantB_Description c);
          btnLabel = (if isA then variantA_ButtonLabel c else variantB_ButtonLabel c);
          btnUrl = (if isA then variantA_ButtonUrl c else variantB_ButtonUrl c);
          position =
            (if isA
             then (if truthy (variantA_ImagePosition c) then to_str (variantA_ImagePosition c)
                   else ''center'')
             else (if truthy (variantB_ImagePosition c) then to_str (variantB_ImagePosition c)
                   else ''center''));
          height = (case imageHeight c of None \<Rightarrow> 400 | Some h \<Rightarrow> if h = 0 then 400 else h)
      in \<lparr>imageUrl = constructCmsUrl env key,
          altText = title,
          title = title,
          description = desc,
          buttonLabel = btnLabel,
          buttonUrl = resolveUrl env btnUrl,
          imageStyle = ''width: 100%; height: '' @ Number_toString env height
            @ ''px; object-fit: cover; object-position: '' @ position
            @ ''; border-radius: 4px;''\<rparr>)"

section \<open>A JSON parser and an example site\<close>

text \<open>
  \<^verbatim>\<open>JSON.parse\<close> is built in; the component's methods take it from the platform. The
  examples need one that runs, written here after the JSON grammar of ECMA-404: a scanner
  that reads the text one character at a time, and a parser that reads the tokens one at a
  time and keeps the open arrays and objects on a stack. A text that is not JSON is a
  \<^verbatim>\<open>SyntaxError\<close>. Two limits: a \<open>char\<close> is one byte, so an escape \<^verbatim>\<open>\uXXXX\<close> above 255
  has no string to stand for and is refused; and a number is its exact decimal value, not
  the nearest double.
\<close>

datatype token = TLBrace | TRBrace | TLBracket | TRBracket | TColon | TComma
  | TString string | TNumber real | TTrue | TFalse | TNull

datatype num_phase = NMinus | NZero | NInt | NDot | NFrac | NExp | NExpSign | NExpDigits

text \<open>
  A number being read: the phase, whether a minus sign was read, the digits of integer and
  fraction as one natural number, the count of fraction digits, whether the exponent is
  negative, and the exponent's digits.
\<close>

datatype scan_state = SStart
  | SString string
  | SEscape string
  | SUnicode string "nat list"
  | SLiteral string token
  | SNumber num_phase bool nat nat bool nat

definition char_code :: "char \<Rightarrow> nat" where
  "char_code c = of_char c"

definition is_digit :: "char \<Rightarrow> bool" where
  "is_digit c = (char_code CHR ''0'' \<le> char_code c \<and> char_code c \<le> char_code CHR ''9'')"

definition digit_value :: "char \<Rightarrow> nat" where
  "digit_value c = char_code c - char_code CHR ''0''"

definition hex_value :: "char \<Rightarrow> nat option" where
  "hex_value c =
     (if is_digit c then Some (digit_value c)
      else if char_code CHR ''a'' \<le> char_code c \<and> char_code c \<le> char_code CHR ''f''
        then Some (char_code c - char_code CHR ''a'' + 10)
      else if char_code CHR ''A'' \<le> char_code c \<and> char_code c \<le> char_code CHR ''F''
        then Some (char_code c - char_code CHR ''A'' + 10)
      else None)"

definition number_value :: "bool \<Rightarrow> nat \<Rightarrow> nat \<Rightarrow> bool \<Rightarrow> nat \<Rightarrow> real" where
  "number_value neg mant fdig eneg edig =
     (let m = (if neg then - real mant else real mant) in
      if eneg then m / 10 ^ (edig + fdig)
      else if fdig \<le> edig then m * 10 ^ (edig - fdig)
      else m / 10 ^ (fdig - edig))"

definition scan_start :: "char \<Rightarrow> (scan_state \<times> token list) option" where
  "scan_start c =
     (if c = CHR '' '' \<or> c = CHR 0x09 \<or> c = CHR 0x0A \<or> c = CHR 0x0D then Some (SStart, [])
      else if c = CHR ''{'' then Some (SStart, [TLBrace])
      else if c = CHR ''}'' then Some (SStart, [TRBrace])
      else if c = CHR ''['' then Some (SStart, [TLBracket])
      else if c = CHR '']'' then Some (SStart, [TRBracket])
      else if c = CHR '':'' then Some (SStart, [TColon])
      else if c = CHR '','' then Some (SStart, [TComma])
      else if c = CHR 0x22 then Some (SString [], [])
      else if c = CHR ''-'' then Some (SNumber NMinus True 0 0 False 0, [])
      else if c = CHR ''0'' then Some (SNumber NZero False 0 0 False 0, [])
      else if is_digit c then Some (SNumber NInt False (digit_value c) 0 False 0, [])
      else if c = CHR ''t'' then Some (SLiteral ''rue'' TTrue, [])
      else if c = CHR ''f'' then Some (SLiteral ''alse'' TFalse, [])
      else if c = CHR ''n'' then Some (SLiteral ''ull'' TNull, [])
      else None)"

text \<open>The number is complete: its token, then the character that ended it.\<close>

definition scan_after_number ::
  "bool \<Rightarrow> nat \<Rightarrow> nat \<Rightarrow> bool \<Rightarrow> nat \<Rightarrow> char \<Rightarrow> (scan_state \<times> token list) option" where
  "scan_after_number neg mant fdig eneg edig c =
     (case scan_start c of
        None \<Rightarrow> None
      | Some (st, ts) \<Rightarrow> Some (st, TNumber (number_value neg mant fdig eneg edig) # ts))"

fun scan_number ::
  "num_phase \<Rightarrow> bool \<Rightarrow> nat \<Rightarrow> nat \<Rightarrow> bool \<Rightarrow> nat \<Rightarrow> char \<Rightarrow> (scan_state \<times> token list) option" where
  "scan_number NMinus neg mant fdig eneg edig c =
     (if c = CHR ''0'' then Some (SNumber NZero neg 0 0 False 0, [])
      else if is_digit c then Some (SNumber NInt neg (digit_value c) 0 False 0, [])
      else None)"
| "scan_number NZero neg mant fdig eneg edig c =
     (if c = CHR ''.'' then Some (SNumber NDot neg mant fdig eneg edig, [])
      else if c = CHR ''e'' \<or> c = CHR ''E'' then Some (SNumber NExp neg mant fdig eneg edig, [])
      else scan_after_number neg mant fdig eneg edig c)"
| "scan_number NInt neg mant fdig eneg edig c =
     (if is_digit c then Some (SNumber NInt neg (mant * 10 + digit_value c) fdig eneg edig, [])
      else if c = CHR ''.'' then Some (SNumber NDot neg mant fdig eneg edig, [])
      else if c = CHR ''e'' \<or> c = CHR ''E'' then Some (SNumber NExp neg mant fdig eneg edig, [])
      else scan_after_number neg mant fdig eneg edig c)"
| "scan_number NDot neg mant fdig eneg edig c =
     (if is_digit c
      then Some (SNumber NFrac neg (mant * 10 + digit_value c) (Suc fdig) eneg edig, [])
      else None)"
| "scan_number NFrac neg mant fdig eneg edig c =
     (if is_digit c
      then Some (SNumber NFrac neg (mant * 10 + digit_value c) (Suc fdig) eneg edig, [])
      else if c = CHR ''e'' \<or> c = CHR ''E'' then Some (SNumber NExp neg mant fdig eneg edig, [])
      else scan_after_number neg mant fdig eneg edig c)"
| "scan_number NExp neg mant fdig eneg edig c =
     (if c = CHR ''+'' then Some (SNumber NExpSign neg mant fdig False edig, [])
      else if c = CHR ''-'' then Some (SNumber NExpSign neg mant fdig True edig, [])
      else if is_digit c then Some (SNumber NExpDigits neg mant fdig eneg (digit_value c), [])
      else None)"
| "scan_number NExpSign neg mant fdig eneg edig c =
     (if is_digit c then Some (SNumber NExpDigits neg mant fdig eneg (digit_value c), [])
      else None)"
| "scan_number NExpDigits neg mant fdig eneg edig c =
     (if is_digit c
      then Some (SNumber NExpDigits neg mant fdig eneg (edig * 10 + digit_value c), [])
      else scan_after_number neg mant fdig eneg edig c)"

text \<open>One character. A string is collected back to front.\<close>

fun scan_char :: "scan_state \<Rightarrow> char \<Rightarrow> (scan_state \<times> token list) option" where
  "scan_char SStart c = scan_start c"
| "scan_char (SString acc) c =
     (if c = CHR 0x22 then Some (SStart, [TString (rev acc)])
      else if c = CHR 0x5C then Some (SEscape acc, [])
      else if char_code c < 32 then None
      else Some (SString (c # acc), []))"
| "scan_char (SEscape acc) c =
     (if c = CHR 0x22 \<or> c = CHR 0x5C \<or> c = CHR ''/'' then Some (SString (c # acc), [])
      else if c = CHR ''b'' then Some (SString (CHR 0x08 # acc), [])
      else if c = CHR ''f'' then Some (SString (CHR 0x0C # acc), [])
      else if c = CHR ''n'' then Some (SString (CHR 0x0A # acc), [])
      else if c = CHR ''r'' then Some (SString (CHR 0x0D # acc), [])
      else if c = CHR ''t'' then Some (SString (CHR 0x09 # acc), [])
      else if c = CHR ''u'' then Some (SUnicode acc [], [])
      else None)"
| "scan_char (SUnicode acc ds) c =
     (case hex_value c of
        None \<Rightarrow> None
      | Some d \<Rightarrow>
          if length ds < 3 then Some (SUnicode acc (ds @ [d]), [])
          else
            (let code = foldl (\<lambda>n h. n * 16 + h) 0 (ds @ [d]) in
             if code < 256 then Some (SString (char_of code # acc), []) else None))"
| "scan_char (SLiteral [] t) c = None"
| "scan_char (SLiteral (x # xs) t) c =
     (if c \<noteq> x then None
      else if xs = [] then Some (SStart, [t])
      else Some (SLiteral xs t, []))"
| "scan_char (SNumber ph neg mant fdig eneg edig) c = scan_number ph neg mant fdig eneg edig c"

text \<open>The end of the text: only between tokens, or after a number that is complete.\<close>

fun scan_end :: "scan_state \<Rightarrow> token list option" where
  "scan_end SStart = Some []"
| "scan_end (SNumber ph neg mant fdig eneg edig) =
     (if ph = NZero \<or> ph = NInt \<or> ph = NFrac \<or> ph = NExpDigits
      then Some [TNumber (number_value neg mant fdig eneg edig)]
      else None)"
| "scan_end st = None"

fun scan :: "scan_state \<Rightarrow> string \<Rightarrow> token list option" where
  "scan st [] = scan_end st"
| "scan st (c # cs) =
     (case scan_char st c of
        None \<Rightarrow> None
      | Some (st', ts) \<Rightarrow> (case scan st' cs of None \<Rightarrow> None | Some rest \<Rightarrow> Some (ts @ rest)))"

text \<open>
  The parser's stack holds the arrays and objects that are open: an array with its elements
  so far (last first), an object with its members so far (last first) and the key that waits
  for its value.
\<close>

datatype frame = FArray "jsval list" | FObject "(string \<times> jsval) list" "string option"

datatype expect = EValue | EValueOrClose | EKey | EKeyOrClose | EColon | ECommaOrClose | EEnd

type_synonym parse_state = "frame list \<times> expect \<times> jsval option"

text \<open>A value is complete: it is the result, or goes into the innermost open container.\<close>

fun deliver :: "jsval \<Rightarrow> frame list \<Rightarrow> parse_state option" where
  "deliver v [] = Some ([], EEnd, Some v)"
| "deliver v (FArray es # fs) = Some (FArray (v # es) # fs, ECommaOrClose, None)"
| "deliver v (FObject ps (Some k) # fs) = Some (FObject ((k, v) # ps) None # fs, ECommaOrClose, None)"
| "deliver v (FObject ps None # fs) = None"

fun parse_value :: "token \<Rightarrow> frame list \<Rightarrow> parse_state option" where
  "parse_value TLBracket fs = Some (FArray [] # fs, EValueOrClose, None)"
| "parse_value TLBrace fs = Some (FObject [] None # fs, EKeyOrClose, None)"
| "parse_value (TString s) fs = deliver (JStr s) fs"
| "parse_value (TNumber x) fs = deliver (JNum x) fs"
| "parse_value TTrue fs = deliver (JBool True) fs"
| "parse_value TFalse fs = deliver (JBool False) fs"
| "parse_value TNull fs = deliver JNull fs"
| "parse_value t fs = None"

fun parse_token :: "parse_state \<Rightarrow> token \<Rightarrow> parse_state option" where
  "parse_token (fs, EValue, r) t = parse_value t fs"
| "parse_token (FArray es # fs, EValueOrClose, r) TRBracket = deliver (JArr (rev es)) fs"
| "parse_token (fs, EValueOrClose, r) t = parse_value t fs"
| "parse_token (FObject ps None # fs, EKeyOrClose, r) TRBrace = deliver (JObj ps) fs"
| "parse_token (FObject ps None # fs, EKeyOrClose, r) (TString k) =
     Some (FObject ps (Some k) # fs, EColon, None)"
| "parse_token (FObject ps None # fs, EKey, r) (TString k) =
     Some (FObject ps (Some k) # fs, EColon, None)"
| "parse_token (fs, EColon, r) TColon = Some (fs, EValue, None)"
| "parse_token (FArray es # fs, ECommaOrClose, r) TComma = Some (FArray es # fs, EValue, None)"
| "parse_token (FArray es # fs, ECommaOrClose, r) TRBracket = deliver (JArr (rev es)) fs"
| "parse_token (FObject ps None # fs, ECommaOrClose, r) TComma =
     Some (FObject ps None # fs, EKey, None)"
| "parse_token (FObject ps None # fs, ECommaOrClose, r) TRBrace = deliver (JObj ps) fs"
| "parse_token st t = None"

fun parse_tokens :: "parse_state \<Rightarrow> token list \<Rightarrow> parse_state option" where
  "parse_tokens st [] = Some st"
| "parse_tokens st (t # ts) =
     (case parse_token st t of None \<Rightarrow> None | Some st' \<Rightarrow> parse_tokens st' ts)"

definition json_parse :: "string \<Rightarrow> js_error + jsval" where
  "json_parse s =
     (case scan SStart s of
        None \<Rightarrow> Inl SyntaxError
      | Some ts \<Rightarrow>
          (case parse_tokens ([], EValue, None) ts of
             Some ([], EEnd, Some v) \<Rightarrow> Inr v
           | _ \<Rightarrow> Inl SyntaxError))"

text \<open>
  Number to string, for the integers the examples use: the decimal digits, as JavaScript
  writes an integer below \<open>10 ^ 21\<close>.
\<close>

definition decimal_digit :: "nat \<Rightarrow> char" where
  "decimal_digit n = ''0123456789'' ! (n mod 10)"

function digits10 :: "nat \<Rightarrow> string" where
  "digits10 n =
     (if n < 10 then [decimal_digit n] else digits10 (n div 10) @ [decimal_digit (n mod 10)])"
  by pat_completeness auto
termination
  by (relation "measure (\<lambda>n. n)") auto

definition integer_toString :: "real \<Rightarrow> string" where
  "integer_toString x =
     (if x < 0 then CHR ''-'' # digits10 (nat (- \<lfloor>x\<rfloor>)) else digits10 (nat \<lfloor>x\<rfloor>))"

text \<open>
  A site under the prefix \<^verbatim>\<open>/shop\<close> whose random generator returns, call after call, the
  sixteenths \<open>3/16\<close>, \<open>10/16\<close>, \<open>1/16\<close>, \<open>8/16\<close> and so on.
\<close>

definition example_site :: platform where
  "example_site =
     \<lparr>basePath = Some ''/shop'', JSON_parse = json_parse, Number_toString = integer_toString,
      Math_random = (\<lambda>n. real ((7 * n + 3) mod 16) / 16)\<rparr>"

text \<open>A banner for the test \<^verbatim>\<open>promo1\<close> as the page creates it, before it is connected.\<close>

definition banner :: component where
  \<open>banner =
     \<lparr>testId = Some ''promo1'', imageHeight = None, previewMode = ''Auto'',
      variantA_ImageContent = JStr ''{"contentKey":"k1"}'',
      variantA_ImagePosition = None,
      variantA_Title = Some ''Spring sale'',
      variantA_Description = Some ''All coats'',
      variantA_ButtonLabel = Some ''Shop now'',
      variantA_ButtonUrl = Some ''sale'',
      variantB_ImageContent = JStr ''k2'',
      variantB_ImagePosition = Some ''top'',
      variantB_Title = Some ''Last chance'',
      variantB_Description = Some ''Coats and boots'',
      variantB_ButtonLabel = Some ''See offers'',
      variantB_ButtonUrl = Some ''https://example.com/offers'',
      assignedVariant = None, visitorId = None\<rparr>\<close>

text \<open>The browser of a first visit: nothing stored, nothing sent.\<close>

definition first_visit :: browser where
  "first_visit = \<lparr>items = Map.empty, mode = Available, draws = 0, calls = [], console = []\<rparr>"

text \<open>The browser of a visitor who was assigned variant B of \<^verbatim>\<open>promo1\<close> on an earlier visit.\<close>

definition returning_visit :: browser where
  "returning_visit =
     \<lparr>items = [''DXFORCE_VISITOR_ID'' \<mapsto> ''3a18f6d4-b290-4e7c-a5d3-1f806e4c2b97'',
               ''AB_TEST_ASSIGNMENT_promo1'' \<mapsto> ''B''],
      mode = Available, draws = 0, calls = [], console = []\<rparr>"

text \<open>The same visitor after the view of \<^verbatim>\<open>promo1\<close> was reported.\<close>

definition reported_visit :: browser where
  "reported_visit =
     returning_visit\<lparr>items := (items returning_visit)(''AB_LOGGED_promo1_View'' \<mapsto> ''true'')\<rparr>"

text \<open>
  A visit: the banner is connected and rendered, the visitor clicks, the first remote call
  fails, the page is rendered again and then loaded again, an author switches the preview
  mode back and forth, and the page is rendered once more.
\<close>

definition a_visit :: "event list" where
  "a_visit = [Connected, Rendered, Clicked, Settled 0 (Rejected ''timeout''), Rendered,
     Reloaded banner, Connected, PreviewModeSet ''Force A'', PreviewModeSet ''Auto'', Rendered]"

section \<open>Vocabulary of the properties\<close>

text \<open>
  A later browser state keeps an earlier one when localStorage is in the same mode and every
  key that held a non-empty value still holds that value.
\<close>

definition keeps :: "browser \<Rightarrow> browser \<Rightarrow> bool" where
  "keeps b b' = (mode b' = mode b \<and> (\<forall>k. truthy (items b k) \<longrightarrow> items b' k = items b k))"

text \<open>
  The site prefix as \<^verbatim>\<open>resolveUrl\<close> reads it (\<^verbatim>\<open>basePath || ''\<close>), and a path written with
  exactly one leading slash: all its leading slashes replaced by one.
\<close>

definition site_prefix :: "platform \<Rightarrow> string" where
  "site_prefix env = (if truthy (basePath env) then to_str (basePath env) else [])"

definition with_one_leading_slash :: "string \<Rightarrow> string" where
  "with_one_leading_slash u = CHR ''/'' # dropWhile (\<lambda>c. c = CHR ''/'') u"

text \<open>
  The key that an object's properties give: its \<^verbatim>\<open>contentKey\<close> when that is truthy,
  otherwise its \<^verbatim>\<open>id\<close> when that is truthy, otherwise \<^verbatim>\<open>null\<close>.
\<close>

definition field :: "(string \<times> jsval) list \<Rightarrow> string \<Rightarrow> jsval" where
  "field ps k = (case map_of ps k of None \<Rightarrow> JUndefined | Some v \<Rightarrow> v)"

definition key_of :: "(string \<times> jsval) list \<Rightarrow> jsval" where
  "key_of ps =
     (if truthy_val (field ps ''contentKey'') then field ps ''contentKey''
      else if truthy_val (field ps ''id'') then field ps ''id''
      else JNull)"

text \<open>The storage keys of a test's assignment and of its dedup flag for an action type.\<close>

definition assignment_key :: "string \<Rightarrow> string" where
  "assignment_key t = STORAGE_KEY_ASSIGNMENT @ t"

definition logged_key :: "string option \<Rightarrow> string \<Rightarrow> string" where
  "logged_key t a = STORAGE_KEY_LOGGED @ to_str t @ ''_'' @ a"

text \<open>How many remote calls were dispatched so far for a test and an action type.\<close>

definition sent_for :: "string option \<Rightarrow> string \<Rightarrow> browser \<Rightarrow> nat" where
  "sent_for t a b =
     length (filter (\<lambda>p. log_testId p = t \<and> log_actionType p = a) (map fst (calls b)))"

text \<open>
  The shape of a version 4 UUID in lower case: groups of 8, 4, 4, 4 and 12 hexadecimal
  digits between hyphens, the third group starting with \<^verbatim>\<open>4\<close> and the fourth with one of
  \<^verbatim>\<open>8\<close>, \<^verbatim>\<open>9\<close>, \<^verbatim>\<open>a\<close>, \<^verbatim>\<open>b\<close>. In a pattern \<^verbatim>\<open>x\<close> stands for a hexadecimal digit, \<^verbatim>\<open>y\<close> for
  one of the four, and every other character for itself.
\<close>

fun fits :: "string \<Rightarrow> string \<Rightarrow> bool" where
  "fits [] [] = True"
| "fits (p # ps) (c # cs) =
     ((if p = CHR ''x'' then c \<in> set ''0123456789abcdef''
       else if p = CHR ''y'' then c \<in> set ''89ab''
       else c = p) \<and> fits ps cs)"
| "fits ps cs = False"

definition is_uuid_v4 :: "string \<Rightarrow> bool" where
  "is_uuid_v4 s = fits ''xxxxxxxx-xxxx-4xxx-yxxx-xxxxxxxxxxxx'' s"

text \<open>
  What the replacement makes of a template when the random generator's calls from call
  \<open>n\<close> on return \<open>f n\<close>, \<open>f (n + 1)\<close> and so on, and how many calls a template takes.
\<close>

fun replaced :: "(nat \<Rightarrow> real) \<Rightarrow> nat \<Rightarrow> string \<Rightarrow> string" where
  "replaced f n [] = []"
| "replaced f n (c # cs) =
     (if c = CHR ''x'' then toString16 (ToInt32 (f n * 16)) @ replaced f (Suc n) cs
      else if c = CHR ''y'' then toString16 ((ToInt32 (f n * 16) AND 3) OR 8) @ replaced f (Suc n) cs
      else c # replaced f n cs)"

definition places :: "string \<Rightarrow> nat" where
  "places t = length (filter (\<lambda>c. c = CHR ''x'' \<or> c = CHR ''y'') t)"

section \<open>What the callbacks leave alone\<close>

text \<open>
  Generating an identifier only draws random numbers. Every write of the component goes to a
  key that it has just read as absent or empty, so no callback changes a non-empty entry, and
  none changes the storage mode. Only the metric reporter dispatches remote calls.
\<close>

lemma replace_xy_frame:
  "replace_xy env t b = (u, b1) \<Longrightarrow>
     items b1 = items b \<and> mode b1 = mode b \<and> calls b1 = calls b \<and> console b1 = console b"
proof (induction t arbitrary: b u b1)
  case Nil
  then show ?case by simp
next
  case (Cons a t)
  show ?case
  proof (cases "a = CHR ''x'' \<or> a = CHR ''y''")
    case True
    obtain rest b2 where r: "replace_xy env t (b\<lparr>draws := Suc (draws b)\<rparr>) = (rest, b2)"
      by (cases "replace_xy env t (b\<lparr>draws := Suc (draws b)\<rparr>)")
    with True Cons.prems have "b1 = b2"
      by (auto simp: random_draw_def Let_def)
    with Cons.IH [OF r] show ?thesis by simp
  next
    case False
    obtain rest b2 where r: "replace_xy env t b = (rest, b2)"
      by (cases "replace_xy env t b")
    with False Cons.prems have "b1 = b2" by simp
    with Cons.IH [OF r] show ?thesis by simp
  qed
qed

lemma generateUUID_frame:
  "generateUUID env b = (u, b1) \<Longrightarrow>
     items b1 = items b \<and> mode b1 = mode b \<and> calls b1 = calls b \<and> console b1 = console b"
  unfolding generateUUID_def by (rule replace_xy_frame)

lemma keeps_refl: "keeps b b"
  by (simp add: keeps_def)

lemma keeps_trans: "keeps b b1 \<Longrightarrow> keeps b1 b2 \<Longrightarrow> keeps b b2"
  by (simp add: keeps_def)

lemma initializeAssignment_keeps:
  "state_of (initializeAssignment env c b) = (c', b') \<Longrightarrow> keeps b b'"
  by (auto simp: initializeAssignment_def keeps_def getItem_def setItem_def random_draw_def Let_def
      split: if_splits sum.splits storage_mode.splits)

lemma initializeAssignment_calls:
  "state_of (initializeAssignment env c b) = (c', b') \<Longrightarrow> calls b' = calls b"
  by (auto simp: initializeAssignment_def getItem_def setItem_def random_draw_def Let_def
      split: if_splits sum.splits storage_mode.splits)

lemma initializeVisitorId_keeps:
  "state_of (initializeVisitorId env c b) = (c', b') \<Longrightarrow> keeps b b'"
  by (auto simp: initializeVisitorId_def keeps_def getItem_def setItem_def
      dest!: generateUUID_frame split: if_splits sum.splits storage_mode.splits prod.splits)

lemma initializeVisitorId_calls:
  "state_of (initializeVisitorId env c b) = (c', b') \<Longrightarrow> calls b' = calls b"
  by (auto simp: initializeVisitorId_def getItem_def setItem_def
      dest!: generateUUID_frame split: if_splits sum.splits storage_mode.splits prod.splits)

lemma connectedCallback_keeps:
  assumes "state_of (connectedCallback env c b) = (c', b')"
  shows "keeps b b'"
proof (cases "initializeVisitorId env c b")
  case (Returns s)
  obtain c1 b1 where s: "s = (c1, b1)" by (cases s)
  with Returns have "state_of (initializeVisitorId env c b) = (c1, b1)" by simp
  then have 1: "keeps b b1" by (rule initializeVisitorId_keeps)
  from assms Returns s have "state_of (initializeAssignment env c1 b1) = (c', b')"
    by (simp add: connectedCallback_def)
  then have "keeps b1 b'" by (rule initializeAssignment_keeps)
  with 1 show ?thesis by (rule keeps_trans)
next
  case (Throws e s)
  with assms have "state_of (initializeVisitorId env c b) = (c', b')"
    by (simp add: connectedCallback_def)
  then show ?thesis by (rule initializeVisitorId_keeps)
qed

lemma connectedCallback_calls:
  assumes "state_of (connectedCallback env c b) = (c', b')"
  shows "calls b' = calls b"
proof (cases "initializeVisitorId env c b")
  case (Returns s)
  obtain c1 b1 where s: "s = (c1, b1)" by (cases s)
  with Returns have "state_of (initializeVisitorId env c b) = (c1, b1)" by simp
  then have 1: "calls b1 = calls b" by (rule initializeVisitorId_calls)
  from assms Returns s have "state_of (initializeAssignment env c1 b1) = (c', b')"
    by (simp add: connectedCallback_def)
  then have "calls b' = calls b1" by (rule initializeAssignment_calls)
  with 1 show ?thesis by simp
next
  case (Throws e s)
  with assms have "state_of (initializeVisitorId env c b) = (c', b')"
    by (simp add: connectedCallback_def)
  then show ?thesis by (rule initializeVisitorId_calls)
qed

lemma tryLogMetric_keeps:
  "state_of (tryLogMetric c b a) = (c', b') \<Longrightarrow> keeps b b'"
  by (auto simp: tryLogMetric_def keeps_def getItem_def setItem_def logAction_def Let_def
      split: if_splits sum.splits storage_mode.splits)

lemma settle_keeps: "keeps b (settle i r b)"
  by (simp add: settle_def keeps_def Let_def split: outcome.splits)

lemma fire_keeps: "state_of (fire env ev (c, b)) = (c', b') \<Longrightarrow> keeps b b'"
  by (cases ev)
     (auto simp: renderedCallback_def handleButtonClick_def set_previewMode_def keeps_refl settle_keeps
       dest: connectedCallback_keeps tryLogMetric_keeps initializeAssignment_keeps split: if_splits)

lemma run_keeps: "run env evs (c, b) = (c', b') \<Longrightarrow> keeps b b'"
proof (induction evs arbitrary: c b)
  case Nil
  then show ?case by (simp add: keeps_refl)
next
  case (Cons ev evs)
  obtain c1 b1 where s: "state_of (fire env ev (c, b)) = (c1, b1)"
    by (cases "state_of (fire env ev (c, b))")
  with Cons.prems have "run env evs (c1, b1) = (c', b')" by simp
  then have "keeps b1 b'" by (rule Cons.IH)
  with fire_keeps [OF s] show ?case by (rule keeps_trans)
qed

lemma keeps_truthy: "keeps b b' \<Longrightarrow> truthy (items b k) \<Longrightarrow> items b' k = items b k"
  by (simp add: keeps_def)

lemma keeps_mode: "keeps b b' \<Longrightarrow> mode b' = mode b"
  by (simp add: keeps_def)

section \<open>Forced preview modes\<close>

text \<open>
  C3. For the override modes "Force A" and "Force B" and every browser state, whatever
  localStorage holds and whether or not it can be accessed, resolving the assignment sets the
  assigned variant to the forced one and returns the browser exactly as it was: no key is
  written or removed, and no random number is drawn.
\<close>

theorem forced_assignment_leaves_storage:
  "(previewMode c = ''Force A'' \<longrightarrow>
      initializeAssignment env c b = Returns (c\<lparr>assignedVariant := Some ''A''\<rparr>, b)) \<and>
   (previewMode c = ''Force B'' \<longrightarrow>
      initializeAssignment env c b = Returns (c\<lparr>assignedVariant := Some ''B''\<rparr>, b))"
  by (simp add: initializeAssignment_def)

text \<open>
  The returning visitor holds a persisted B; forcing A shows A and forcing B shows B, and
  the browser is the same afterwards.
\<close>

theorem forced_assignment_leaves_storage_witness:
  "initializeAssignment example_site (banner\<lparr>previewMode := ''Force A''\<rparr>) returning_visit
     = Returns (banner\<lparr>previewMode := ''Force A'', assignedVariant := Some ''A''\<rparr>, returning_visit)
   \<and> initializeAssignment example_site (banner\<lparr>previewMode := ''Force B''\<rparr>) returning_visit
     = Returns (banner\<lparr>previewMode := ''Force B'', assignedVariant := Some ''B''\<rparr>, returning_visit)"
  using forced_assignment_leaves_storage
      [where c = "banner\<lparr>previewMode := ''Force A''\<rparr>" and env = example_site and b = returning_visit]
    forced_assignment_leaves_storage
      [where c = "banner\<lparr>previewMode := ''Force B''\<rparr>" and env = example_site and b = returning_visit]
  by simp

section \<open>No test configured\<close>

text \<open>
  C6. When no test identifier is configured (the property is undefined or the empty string)
  and the preview mode is not one of the two forced modes, resolving the assignment gives
  "A" and returns the browser exactly as it was: nothing is written to localStorage.
\<close>

theorem unconfigured_test_assigns_A:
  assumes "\<not> truthy (testId c)"
    and "previewMode c \<noteq> ''Force A''" and "previewMode c \<noteq> ''Force B''"
  shows "initializeAssignment env c b = Returns (c\<lparr>assignedVariant := Some ''A''\<rparr>, b)"
  using assms by (simp add: initializeAssignment_def)

theorem unconfigured_test_assigns_A_witness:
  "initializeAssignment example_site (banner\<lparr>testId := None\<rparr>) first_visit
     = Returns (banner\<lparr>testId := None, assignedVariant := Some ''A''\<rparr>, first_visit)
   \<and> initializeAssignment example_site (banner\<lparr>testId := Some []\<rparr>) returning_visit
     = Returns (banner\<lparr>testId := Some [], assignedVariant := Some ''A''\<rparr>, returning_visit)"
  using unconfigured_test_assigns_A
      [where c = "banner\<lparr>testId := None\<rparr>" and env = example_site and b = first_visit]
    unconfigured_test_assigns_A
      [where c = "banner\<lparr>testId := Some []\<rparr>" and env = example_site and b = returning_visit]
  by (simp add: banner_def)

section \<open>A first resolution\<close>



section \<open>A persisted assignment\<close>

lemma stored_assignment_returned:
  assumes "items b (assignment_key t) = Some v" and "v \<noteq> []" and "mode b \<noteq> AccessDenied"
    and "testId c = Some t" and "t \<noteq> []"
    and "previewMode c \<noteq> ''Force A''" and "previewMode c \<noteq> ''Force B''"
  shows "initializeAssignment env c b = Returns (c\<lparr>assignedVariant := Some v\<rparr>, b)"
  using assms by (simp add: initializeAssignment_def assignment_key_def getItem_def Let_def)

lemma resolution_repeats:
  assumes m: "mode b = Available" and s: "state_of (initializeAssignment env c b) = (c1, b1)"
    and t: "testId c2 = testId c" and p: "previewMode c2 = previewMode c"
  shows "initializeAssignment env c b = Returns (c1, b1) \<and>
         initializeAssignment env c2 b1 = Returns (c2\<lparr>assignedVariant := assignedVariant c1\<rparr>, b1)"
proof -
  let ?k = "STORAGE_KEY_ASSIGNMENT @ to_str (testId c)"
  let ?v = "if Math_random env (draws b) < 1 / 2 then ''A'' else ''B''"
  consider (fa) "previewMode c = ''Force A''"
    | (fb) "previewMode c \<noteq> ''Force A''" "previewMode c = ''Force B''"
    | (nt) "previewMode c \<noteq> ''Force A''" "previewMode c \<noteq> ''Force B''" "\<not> truthy (testId c)"
    | (st) "previewMode c \<noteq> ''Force A''" "previewMode c \<noteq> ''Force B''" "truthy (testId c)"
        "truthy (items b ?k)"
    | (dr) "previewMode c \<noteq> ''Force A''" "previewMode c \<noteq> ''Force B''" "truthy (testId c)"
        "\<not> truthy (items b ?k)"
    by blast
  then show ?thesis
  proof cases
    case fa
    with s have "c1 = c\<lparr>assignedVariant := Some ''A''\<rparr>" and "b1 = b"
      by (simp_all add: initializeAssignment_def)
    with fa t p show ?thesis by (simp add: initializeAssignment_def)
  next
    case fb
    with s have "c1 = c\<lparr>assignedVariant := Some ''B''\<rparr>" and "b1 = b"
      by (simp_all add: initializeAssignment_def)
    with fb t p show ?thesis by (simp add: initializeAssignment_def)
  next
    case nt
    with s have "c1 = c\<lparr>assignedVariant := Some ''A''\<rparr>" and "b1 = b"
      by (simp_all add: initializeAssignment_def)
    with nt t p show ?thesis by (simp add: initializeAssignment_def)
  next
    case st
    with m s have "c1 = c\<lparr>assignedVariant := items b ?k\<rparr>" and "b1 = b"
      by (auto simp add: initializeAssignment_def getItem_def Let_def)
    with st m t p show ?thesis
      by (simp add: initializeAssignment_def getItem_def Let_def)
  next
    case dr
    with m s have e: "c1 = c\<lparr>assignedVariant := Some ?v\<rparr>"
        "b1 = b\<lparr>draws := Suc (draws b), items := (items b)(?k \<mapsto> ?v)\<rparr>"
      by (auto simp add: initializeAssignment_def getItem_def setItem_def random_draw_def Let_def)
    with dr m have 1: "initializeAssignment env c b = Returns (c1, b1)"
      by (simp add: initializeAssignment_def getItem_def setItem_def random_draw_def Let_def)
    from e dr m t p
    have "initializeAssignment env c2 b1 = Returns (c2\<lparr>assignedVariant := assignedVariant c1\<rparr>, b1)"
      by (simp add: initializeAssignment_def getItem_def Let_def)
    with 1 show ?thesis by simp
  qed
qed

text \<open>
  C1. Once a value (a non-empty string; the component stores "A" or "B") is persisted under
  the assignment key of a test and localStorage can be read, then after any sequence of
  events of the page (callbacks, clicks, settled calls, reloads) the value is still stored,
  and every resolution for that test in a mode that is not forced assigns exactly that value
  and changes nothing in the browser. And with a working localStorage, a resolution returns
  normally, and a second resolution right after it (by the same instance or by a new one with
  the same test and preview mode) assigns the same variant and leaves the browser as the first
  one left it.
\<close>

theorem persisted_assignment_is_returned:
  "(items b (assignment_key t) = Some v \<and> v \<noteq> [] \<and> mode b \<noteq> AccessDenied
      \<and> run env evs (c, b) = (c', b')
      \<and> testId c2 = Some t \<and> t \<noteq> []
      \<and> previewMode c2 \<noteq> ''Force A'' \<and> previewMode c2 \<noteq> ''Force B''
    \<longrightarrow> items b' (assignment_key t) = Some v
        \<and> initializeAssignment env c2 b' = Returns (c2\<lparr>assignedVariant := Some v\<rparr>, b'))
   \<and> (mode b = Available \<and> state_of (initializeAssignment env c b) = (c1, b1)
        \<and> testId c2 = testId c \<and> previewMode c2 = previewMode c
    \<longrightarrow> initializeAssignment env c b = Returns (c1, b1)
        \<and> initializeAssignment env c2 b1 = Returns (c2\<lparr>assignedVariant := assignedVariant c1\<rparr>, b1))"
proof (intro conjI impI)
  assume a: "items b (assignment_key t) = Some v \<and> v \<noteq> [] \<and> mode b \<noteq> AccessDenied
      \<and> run env evs (c, b) = (c', b')
      \<and> testId c2 = Some t \<and> t \<noteq> []
      \<and> previewMode c2 \<noteq> ''Force A'' \<and> previewMode c2 \<noteq> ''Force B''"
  then have k: "keeps b b'" by (blast intro: run_keeps)
  from a have "truthy (items b (assignment_key t))" by simp
  with a show s: "items b' (assignment_key t) = Some v"
    using keeps_truthy [OF k, of "assignment_key t"] by simp
  from a have "mode b' \<noteq> AccessDenied"
    using keeps_mode [OF k] by simp
  with s a show "initializeAssignment env c2 b' = Returns (c2\<lparr>assignedVariant := Some v\<rparr>, b')"
    by (simp add: stored_assignment_returned)
next
  assume a: "mode b = Available \<and> state_of (initializeAssignment env c b) = (c1, b1)
        \<and> testId c2 = testId c \<and> previewMode c2 = previewMode c"
  then have "initializeAssignment env c b = Returns (c1, b1) \<and>
      initializeAssignment env c2 b1 = Returns (c2\<lparr>assignedVariant := assignedVariant c1\<rparr>, b1)"
    by (intro resolution_repeats) simp_all
  then show "initializeAssignment env c b = Returns (c1, b1)"
    and "initializeAssignment env c2 b1 = Returns (c2\<lparr>assignedVariant := assignedVariant c1\<rparr>, b1)"
    by simp_all
qed

theorem persisted_assignment_is_returned_witness:
  "items (snd (run example_site a_visit (banner, returning_visit))) ''AB_TEST_ASSIGNMENT_promo1''
     = Some ''B''
   \<and> initializeAssignment example_site banner (snd (run example_site a_visit (banner, returning_visit)))
     = Returns (banner\<lparr>assignedVariant := Some ''B''\<rparr>,
                snd (run example_site a_visit (banner, returning_visit)))
   \<and> initializeAssignment example_site banner first_visit
     = Returns (banner\<lparr>assignedVariant := Some ''A''\<rparr>,
                first_visit\<lparr>draws := 1, items := [''AB_TEST_ASSIGNMENT_promo1'' \<mapsto> ''A'']\<rparr>)
   \<and> initializeAssignment example_site banner
         (first_visit\<lparr>draws := 1, items := [''AB_TEST_ASSIGNMENT_promo1'' \<mapsto> ''A'']\<rparr>)
     = Returns (banner\<lparr>assignedVariant := Some ''A''\<rparr>,
                first_visit\<lparr>draws := 1, items := [''AB_TEST_ASSIGNMENT_promo1'' \<mapsto> ''A'']\<rparr>)"
proof -
  let ?b' = "snd (run example_site a_visit (banner, returning_visit))"
  let ?c' = "fst (run example_site a_visit (banner, returning_visit))"
  let ?b1 = "first_visit\<lparr>draws := 1, items := [''AB_TEST_ASSIGNMENT_promo1'' \<mapsto> ''A'']\<rparr>"
  let ?c1 = "banner\<lparr>assignedVariant := Some ''A''\<rparr>"
  have s: "state_of (initializeAssignment example_site banner first_visit) = (?c1, ?b1)"
    by (simp add: initializeAssignment_def banner_def first_visit_def example_site_def
        getItem_def setItem_def random_draw_def STORAGE_KEY_ASSIGNMENT_def Let_def)
  have 1: "items ?b' ''AB_TEST_ASSIGNMENT_promo1'' = Some ''B'' \<and>
      initializeAssignment example_site banner ?b' = Returns (banner\<lparr>assignedVariant := Some ''B''\<rparr>, ?b')"
    using persisted_assignment_is_returned
      [where b = returning_visit and t = "''promo1''" and v = "''B''" and env = example_site
         and evs = a_visit and c = banner and c' = ?c' and b' = ?b' and ?c2.0 = banner]
    by (simp add: returning_visit_def assignment_key_def STORAGE_KEY_ASSIGNMENT_def banner_def)
  have 2: "initializeAssignment example_site banner first_visit = Returns (?c1, ?b1) \<and>
      initializeAssignment example_site banner ?b1 = Returns (?c1, ?b1)"
    using persisted_assignment_is_returned
      [where b = first_visit and env = example_site and c = banner and ?c1.0 = ?c1 and ?b1.0 = ?b1
         and ?c2.0 = banner] s
    by (simp add: first_visit_def)
  from 1 2 show ?thesis by simp
qed

section \<open>At most one report per flag\<close>

lemma sent_for_append:
  "calls b' = calls b @ [(p, r)] \<Longrightarrow>
     sent_for t a b' = (if log_testId p = t \<and> log_actionType p = a then Suc (sent_for t a b) else sent_for t a b)"
  by (simp add: sent_for_def)


lemma settle_calls: "map fst (calls (settle i r b)) = map fst (calls b)"
  by (simp add: settle_def Let_def map_update list_update_same_conv split: outcome.splits)

text \<open>
  The metric reporter either sends nothing, or sends one call for its own test and action
  type after reading the flag as absent or empty, and then sets the flag if storage works.
\<close>

lemma tryLogMetric_sends:
  assumes "state_of (tryLogMetric c b a') = (c', b')"
  shows "calls b' = calls b \<or>
         (\<exists>p. calls b' = calls b @ [(p, Pending)] \<and> log_testId p = testId c \<and> log_actionType p = a'
            \<and> \<not> truthy (items b (logged_key (testId c) a'))
            \<and> (mode b = Available \<longrightarrow> items b' (logged_key (testId c) a') = Some ''true''))"
  using assms
  by (auto simp: tryLogMetric_def logged_key_def getItem_def setItem_def logAction_def Let_def
      split: if_splits sum.splits storage_mode.splits)

lemma tryLogMetric_step:
  assumes "state_of (tryLogMetric c b a') = (c', b')"
  shows "sent_for t a b' = sent_for t a b \<or>
         (sent_for t a b' = Suc (sent_for t a b) \<and> \<not> truthy (items b (logged_key t a))
            \<and> (mode b = Available \<longrightarrow> truthy (items b' (logged_key t a))))"
proof -
  from tryLogMetric_sends [OF assms] show ?thesis
  proof
    assume "calls b' = calls b"
    then show ?thesis by (simp add: sent_for_def)
  next
    assume "\<exists>p. calls b' = calls b @ [(p, Pending)] \<and> log_testId p = testId c \<and> log_actionType p = a'
            \<and> \<not> truthy (items b (logged_key (testId c) a'))
            \<and> (mode b = Available \<longrightarrow> items b' (logged_key (testId c) a') = Some ''true'')"
    then obtain p where p: "calls b' = calls b @ [(p, Pending)]" "log_testId p = testId c"
        "log_actionType p = a'" "\<not> truthy (items b (logged_key (testId c) a'))"
        "mode b = Available \<longrightarrow> items b' (logged_key (testId c) a') = Some ''true''"
      by blast
    show ?thesis
    proof (cases "testId c = t \<and> a' = a")
      case True
      with p show ?thesis by (auto simp: sent_for_append [OF p(1)])
    next
      case False
      with p show ?thesis by (auto simp: sent_for_append [OF p(1)])
    qed
  qed
qed

lemma fire_step:
  assumes "state_of (fire env ev (c, b)) = (c', b')"
  shows "sent_for t a b' = sent_for t a b \<or>
         (sent_for t a b' = Suc (sent_for t a b) \<and> \<not> truthy (items b (logged_key t a))
            \<and> (mode b = Available \<longrightarrow> truthy (items b' (logged_key t a))))"
proof (cases ev)
  case Connected
  with assms have "calls b' = calls b" by (simp add: connectedCallback_calls)
  then show ?thesis by (simp add: sent_for_def)
next
  case Rendered
  with assms show ?thesis
    by (auto simp: renderedCallback_def dest: tryLogMetric_step split: if_splits)
next
  case Clicked
  with assms show ?thesis
    by (auto simp: handleButtonClick_def dest: tryLogMetric_step split: if_splits)
next
  case (PreviewModeSet v)
  with assms have "calls b' = calls b"
    by (simp add: set_previewMode_def initializeAssignment_calls)
  then show ?thesis by (simp add: sent_for_def)
next
  case (Settled i r)
  with assms have "b' = settle i r b" by simp
  then show ?thesis using settle_calls [of i r b] by (simp add: sent_for_def)
next
  case (Reloaded c2)
  with assms show ?thesis by simp
qed

lemma run_flagged:
  "truthy (items b (logged_key t a)) \<Longrightarrow> sent_for t a (snd (run env evs (c, b))) = sent_for t a b"
proof (induction evs arbitrary: c b)
  case Nil
  then show ?case by simp
next
  case (Cons ev evs)
  obtain c1 b1 where s: "state_of (fire env ev (c, b)) = (c1, b1)"
    by (cases "state_of (fire env ev (c, b))")
  from fire_keeps [OF s] Cons.prems have "truthy (items b1 (logged_key t a))"
    by (simp add: keeps_def)
  then have "sent_for t a (snd (run env evs (c1, b1))) = sent_for t a b1" by (rule Cons.IH)
  moreover from fire_step [OF s, of t a] Cons.prems have "sent_for t a b1 = sent_for t a b"
    by blast
  ultimately show ?case using s by simp
qed

lemma run_bounded:
  "mode b = Available \<Longrightarrow> sent_for t a (snd (run env evs (c, b))) \<le> Suc (sent_for t a b)"
proof (induction evs arbitrary: c b)
  case Nil
  then show ?case by simp
next
  case (Cons ev evs)
  obtain c1 b1 where s: "state_of (fire env ev (c, b)) = (c1, b1)"
    by (cases "state_of (fire env ev (c, b))")
  from fire_keeps [OF s] Cons.prems have m: "mode b1 = Available"
    by (simp add: keeps_def)
  from fire_step [OF s, of t a] show ?case
  proof
    assume "sent_for t a b1 = sent_for t a b"
    with Cons.IH [OF m, of c1] s show ?thesis by simp
  next
    assume "sent_for t a b1 = Suc (sent_for t a b) \<and> \<not> truthy (items b (logged_key t a))
            \<and> (mode b = Available \<longrightarrow> truthy (items b1 (logged_key t a)))"
    with Cons.prems have "sent_for t a b1 = Suc (sent_for t a b)" "truthy (items b1 (logged_key t a))"
      by simp_all
    with run_flagged [of b1 t a env evs c1] s show ?thesis by simp
  qed
qed

lemma tryLogMetric_flagged:
  assumes "truthy (items b (logged_key (testId c) a))"
  shows "calls (snd (state_of (tryLogMetric c b a))) = calls b"
    and "mode b \<noteq> AccessDenied \<Longrightarrow> tryLogMetric c b a = Returns (c, b)"
  using assms
  by (simp_all add: tryLogMetric_def logged_key_def getItem_def Let_def)

text \<open>
  C2. Once the dedup flag of a test and an action type holds a non-empty value (the component
  writes "true"), no sequence of page events (render passes, clicks, reconnects, reloads,
  preview switches, settled calls) dispatches another remote call for that test and action
  type, and the metric reporter itself sends nothing and changes nothing. With a working
  localStorage, any sequence of page events dispatches at most one call for a test and an
  action type, whatever localStorage held at the start.
\<close>

theorem at_most_one_call_per_flag:
  "(truthy (items b (logged_key t a)) \<longrightarrow>
      sent_for t a (snd (run env evs (c, b))) = sent_for t a b
      \<and> (testId c = t \<longrightarrow> calls (snd (state_of (tryLogMetric c b a))) = calls b)
      \<and> (testId c = t \<and> mode b \<noteq> AccessDenied \<longrightarrow> tryLogMetric c b a = Returns (c, b)))
   \<and> (mode b = Available \<longrightarrow> sent_for t a (snd (run env evs (c, b))) \<le> Suc (sent_for t a b))"
  using run_flagged [of b t a env evs c] run_bounded [of b t a env evs c]
    tryLogMetric_flagged [of b c a]
  by blast

theorem at_most_one_call_per_flag_witness:
  "sent_for (Some ''promo1'') ''View'' (snd (run example_site a_visit (banner, reported_visit))) = 0
   \<and> tryLogMetric (banner\<lparr>assignedVariant := Some ''B''\<rparr>) reported_visit ''View''
       = Returns (banner\<lparr>assignedVariant := Some ''B''\<rparr>, reported_visit)
   \<and> sent_for (Some ''promo1'') ''View'' (snd (run example_site a_visit (banner, first_visit))) \<le> 1"
  using at_most_one_call_per_flag
      [where b = reported_visit and t = "Some ''promo1''" and a = "''View''" and env = example_site
         and evs = a_visit and c = "banner\<lparr>assignedVariant := Some ''B''\<rparr>"]
    at_most_one_call_per_flag
      [where b = reported_visit and t = "Some ''promo1''" and a = "''View''" and env = example_site
         and evs = a_visit and c = banner]
    at_most_one_call_per_flag
      [where b = first_visit and t = "Some ''promo1''" and a = "''View''" and env = example_site
         and evs = a_visit and c = banner]
  by (simp add: reported_visit_def returning_visit_def first_visit_def logged_key_def
      STORAGE_KEY_LOGGED_def sent_for_def banner_def)

section \<open>The flag is set before the call's outcome is known\<close>





section \<open>The display bundle\<close>

text \<open>What the example site's parser and number conversion give on the examples' inputs.\<close>

lemma json_parse_k2: "json_parse ''k2'' = Inl SyntaxError"
  by (simp add: json_parse_def scan_start_def is_digit_def char_code_def)

lemma json_parse_k1_object:
  \<open>json_parse ''{"contentKey":"k1"}'' = Inr (JObj [(''contentKey'', JStr ''k1'')])\<close>
  by (simp add: json_parse_def scan_start_def is_digit_def char_code_def)

lemma integer_toString_400: "integer_toString 400 = ''400''"
  by (simp add: integer_toString_def decimal_digit_def)

text \<open>
  C10. The display bundle is built from variant A's fields exactly when the assigned variant
  is the string "A"; for every other value, undefined included, it is built from variant B's
  fields. And a value read back from the assignment key is not checked against "A" and "B":
  whatever non-empty string is stored there becomes the assigned variant.
\<close>

theorem unvalidated_variant_selects_B:
  "(assignedVariant c \<noteq> Some ''A'' \<longrightarrow>
      currentData env c =
        \<lparr>imageUrl = constructCmsUrl env (extractContentKey env (variantB_ImageContent c)),
         altText = variantB_Title c,
         title = variantB_Title c,
         description = variantB_Description c,
         buttonLabel = variantB_ButtonLabel c,
         buttonUrl = resolveUrl env (variantB_ButtonUrl c),
         imageStyle = ''width: 100%; height: ''
           @ Number_toString env (case imageHeight c of None \<Rightarrow> 400 | Some h \<Rightarrow> if h = 0 then 400 else h)
           @ ''px; object-fit: cover; object-position: ''
           @ (if truthy (variantB_ImagePosition c) then to_str (variantB_ImagePosition c) else ''center'')
           @ ''; border-radius: 4px;''\<rparr>)
   \<and> (assignedVariant c = Some ''A'' \<longrightarrow>
      currentData env c =
        \<lparr>imageUrl = constructCmsUrl env (extractContentKey env (variantA_ImageContent c)),
         altText = variantA_Title c,
         title = variantA_Title c,
         description = variantA_Description c,
         buttonLabel = variantA_ButtonLabel c,
         buttonUrl = resolveUrl env (variantA_ButtonUrl c),
         imageStyle = ''width: 100%; height: ''
           @ Number_toString env (case imageHeight c of None \<Rightarrow> 400 | Some h \<Rightarrow> if h = 0 then 400 else h)
           @ ''px; object-fit: cover; object-position: ''
           @ (if truthy (variantA_ImagePosition c) then to_str (variantA_ImagePosition c) else ''center'')
           @ ''; border-radius: 4px;''\<rparr>)
   \<and> (items b (assignment_key t) = Some v \<and> v \<noteq> [] \<and> mode b \<noteq> AccessDenied
        \<and> testId c = Some t \<and> t \<noteq> []
        \<and> previewMode c \<noteq> ''Force A'' \<and> previewMode c \<noteq> ''Force B''
      \<longrightarrow> initializeAssignment env c b = Returns (c\<lparr>assignedVariant := Some v\<rparr>, b))"
proof (intro conjI impI)
  assume "assignedVariant c \<noteq> Some ''A''"
  then show "currentData env c =
        \<lparr>imageUrl = constructCmsUrl env (extractContentKey env (variantB_ImageContent c)),
         altText = variantB_Title c,
         title = variantB_Title c,
         description = variantB_Description c,
         buttonLabel = variantB_ButtonLabel c,
         buttonUrl = resolveUrl env (variantB_ButtonUrl c),
         imageStyle = ''width: 100%; height: ''
           @ Number_toString env (case imageHeight c of None \<Rightarrow> 400 | Some h \<Rightarrow> if h = 0 then 400 else h)
           @ ''px; object-fit: cover; object-position: ''
           @ (if truthy (variantB_ImagePosition c) then to_str (variantB_ImagePosition c) else ''center'')
           @ ''; border-radius: 4px;''\<rparr>"
    by (simp add: currentData_def contentKeyB_def Let_def)
next
  assume "assignedVariant c = Some ''A''"
  then show "currentData env c =
        \<lparr>imageUrl = constructCmsUrl env (extractContentKey env (variantA_ImageContent c)),
         altText = variantA_Title c,
         title = variantA_Title c,
         description = variantA_Description c,
         buttonLabel = variantA_ButtonLabel c,
         buttonUrl = resolveUrl env (variantA_ButtonUrl c),
         imageStyle = ''width: 100%; height: ''
           @ Number_toString env (case imageHeight c of None \<Rightarrow> 400 | Some h \<Rightarrow> if h = 0 then 400 else h)
           @ ''px; object-fit: cover; object-position: ''
           @ (if truthy (variantA_ImagePosition c) then to_str (variantA_ImagePosition c) else ''center'')
           @ ''; border-radius: 4px;''\<rparr>"
    by (simp add: currentData_def contentKeyA_def Let_def)
next
  assume "items b (assignment_key t) = Some v \<and> v \<noteq> [] \<and> mode b \<noteq> AccessDenied
        \<and> testId c = Some t \<and> t \<noteq> []
        \<and> previewMode c \<noteq> ''Force A'' \<and> previewMode c \<noteq> ''Force B''"
  then show "initializeAssignment env c b = Returns (c\<lparr>assignedVariant := Some v\<rparr>, b)"
    by (elim conjE) (rule stored_assignment_returned, assumption+)
qed

theorem unvalidated_variant_selects_B_witness:
  "initializeAssignment example_site banner
       (returning_visit\<lparr>items := (items returning_visit)(''AB_TEST_ASSIGNMENT_promo1'' \<mapsto> ''control'')\<rparr>)
     = Returns (banner\<lparr>assignedVariant := Some ''control''\<rparr>,
         returning_visit\<lparr>items := (items returning_visit)(''AB_TEST_ASSIGNMENT_promo1'' \<mapsto> ''control'')\<rparr>)
   \<and> currentData example_site (banner\<lparr>assignedVariant := Some ''control''\<rparr>)
     = \<lparr>imageUrl = Some ''/shop/sfsites/c/cms/delivery/media/k2'',
        altText = Some ''Last chance'', title = Some ''Last chance'',
        description = Some ''Coats and boots'', buttonLabel = Some ''See offers'',
        buttonUrl = ''https://example.com/offers'',
        imageStyle = ''width: 100%; height: 400px; object-fit: cover; object-position: top; border-radius: 4px;''\<rparr>
   \<and> currentData example_site banner
     = \<lparr>imageUrl = Some ''/shop/sfsites/c/cms/delivery/media/k2'',
        altText = Some ''Last chance'', title = Some ''Last chance'',
        description = Some ''Coats and boots'', buttonLabel = Some ''See offers'',
        buttonUrl = ''https://example.com/offers'',
        imageStyle = ''width: 100%; height: 400px; object-fit: cover; object-position: top; border-radius: 4px;''\<rparr>
   \<and> currentData example_site (banner\<lparr>assignedVariant := Some ''A''\<rparr>)
     = \<lparr>imageUrl = Some ''/shop/sfsites/c/cms/delivery/media/k1'',
        altText = Some ''Spring sale'', title = Some ''Spring sale'',
        description = Some ''All coats'', buttonLabel = Some ''Shop now'',
        buttonUrl = ''/shop/sale'',
        imageStyle = ''width: 100%; height: 400px; object-fit: cover; object-position: center; border-radius: 4px;''\<rparr>"
proof -
  have k1: "extractContentKey example_site (variantA_ImageContent banner) = JStr ''k1''"
    by (simp add: extractContentKey_def banner_def example_site_def json_parse_k1_object)
  have k2: "extractContentKey example_site (variantB_ImageContent banner) = JStr ''k2''"
    by (simp add: extractContentKey_def banner_def example_site_def json_parse_k2)
  have u1: "constructCmsUrl example_site (JStr ''k1'') = Some ''/shop/sfsites/c/cms/delivery/media/k1''"
    and u2: "constructCmsUrl example_site (JStr ''k2'') = Some ''/shop/sfsites/c/cms/delivery/media/k2''"
    by (simp_all add: constructCmsUrl_def example_site_def)
  have r1: "resolveUrl example_site (Some ''sale'') = ''/shop/sale''"
    and r2: "resolveUrl example_site (Some ''https://example.com/offers'') = ''https://example.com/offers''"
    by (simp_all add: resolveUrl_def matches_scheme_def startsWith_def example_site_def)
  have n: "Number_toString example_site 400 = ''400''"
    by (simp add: example_site_def integer_toString_400)
  have f: "variantA_Title banner = Some ''Spring sale''" "variantA_Description banner = Some ''All coats''"
    "variantA_ButtonLabel banner = Some ''Shop now''" "variantA_ButtonUrl banner = Some ''sale''"
    "variantA_ImagePosition banner = None" "imageHeight banner = None"
    "variantB_Title banner = Some ''Last chance''" "variantB_Description banner = Some ''Coats and boots''"
    "variantB_ButtonLabel banner = Some ''See offers''"
    "variantB_ButtonUrl banner = Some ''https://example.com/offers''"
    "variantB_ImagePosition banner = Some ''top''" "assignedVariant banner = None"
    "testId banner = Some ''promo1''" "previewMode banner = ''Auto''"
    by (simp_all add: banner_def)
  let ?b = "returning_visit\<lparr>items := (items returning_visit)(''AB_TEST_ASSIGNMENT_promo1'' \<mapsto> ''control'')\<rparr>"
  note t = unvalidated_variant_selects_B
  from t [where c = "banner\<lparr>assignedVariant := Some ''control''\<rparr>" and env = example_site]
  have 1: "currentData example_site (banner\<lparr>assignedVariant := Some ''control''\<rparr>)
     = \<lparr>imageUrl = Some ''/shop/sfsites/c/cms/delivery/media/k2'',
        altText = Some ''Last chance'', title = Some ''Last chance'',
        description = Some ''Coats and boots'', buttonLabel = Some ''See offers'',
        buttonUrl = ''https://example.com/offers'',
        imageStyle = ''width: 100%; height: 400px; object-fit: cover; object-position: top; border-radius: 4px;''\<rparr>"
    by (simp add: k2 u2 r2 n f)
  from t [where c = banner and env = example_site]
  have 2: "currentData example_site banner
     = \<lparr>imageUrl = Some ''/shop/sfsites/c/cms/delivery/media/k2'',
        altText = Some ''Last chance'', title = Some ''Last chance'',
        description = Some ''Coats and boots'', buttonLabel = Some ''See offers'',
        buttonUrl = ''https://example.com/offers'',
        imageStyle = ''width: 100%; height: 400px; object-fit: cover; object-position: top; border-radius: 4px;''\<rparr>"
    by (simp add: k2 u2 r2 n f)
  from t [where c = "banner\<lparr>assignedVariant := Some ''A''\<rparr>" and env = example_site]
  have 3: "currentData example_site (banner\<lparr>assignedVariant := Some ''A''\<rparr>)
     = \<lparr>imageUrl = Some ''/shop/sfsites/c/cms/delivery/media/k1'',
        altText = Some ''Spring sale'', title = Some ''Spring sale'',
        description = Some ''All coats'', buttonLabel = Some ''Shop now'',
        buttonUrl = ''/shop/sale'',
        imageStyle = ''width: 100%; height: 400px; object-fit: cover; object-position: center; border-radius: 4px;''\<rparr>"
    by (simp add: k1 u1 r1 n f)
  from t [where c = banner and env = example_site and b = ?b and t = "''promo1''" and v = "''control''"]
  have 4: "initializeAssignment example_site banner ?b
     = Returns (banner\<lparr>assignedVariant := Some ''control''\<rparr>, ?b)"
    by (simp add: f assignment_key_def STORAGE_KEY_ASSIGNMENT_def returning_visit_def)
  from 1 2 3 4 show ?thesis by simp
qed

section \<open>Link URLs\<close>

text \<open>
  C8 says that an input that is neither empty nor absolute comes back as the site prefix
  followed by the input with exactly one leading slash. \<^verbatim>\<open>resolveUrl\<close> only looks whether the
  input starts with a slash and removes none: the protocol-relative \<^verbatim>\<open>//cdn/x.png\<close> is
  appended to the prefix with both its slashes.
\<close>

theorem resolveUrl_two_slashes_counterexample:
  "resolveUrl example_site (Some ''//cdn/x.png'') = ''/shop//cdn/x.png''
   \<and> site_prefix example_site @ with_one_leading_slash ''//cdn/x.png'' = ''/shop/cdn/x.png''
   \<and> \<not> matches_scheme ''//cdn/x.png''"
  by (simp add: resolveUrl_def matches_scheme_def startsWith_def example_site_def site_prefix_def
      with_one_leading_slash_def)

lemma one_slash_unslashed:
  "u \<noteq> [] \<Longrightarrow> \<not> startsWith u ''/'' \<Longrightarrow> with_one_leading_slash u = ''/'' @ u"
  by (cases u) (simp_all add: with_one_leading_slash_def startsWith_def)

lemma one_slash_slashed:
  "startsWith u ''/'' \<Longrightarrow> \<not> startsWith u ''//'' \<Longrightarrow> with_one_leading_slash u = u"
proof (cases u)
  case Nil
  then show "startsWith u ''/'' \<Longrightarrow> ?thesis" by (simp add: startsWith_def)
next
  case (Cons a w)
  assume "startsWith u ''/''" and "\<not> startsWith u ''//''"
  with Cons show ?thesis
    by (cases w) (simp_all add: with_one_leading_slash_def startsWith_def)
qed

text \<open>
  C8, amended. \<^verbatim>\<open>resolveUrl\<close> returns "#" for an empty or undefined input, and the input
  unchanged when it starts with \<^verbatim>\<open>http:\<close>, \<^verbatim>\<open>https:\<close>, \<^verbatim>\<open>mailto:\<close> or \<^verbatim>\<open>tel:\<close>. For every
  other non-empty input that does not start with two slashes it returns the site prefix
  followed by the input with exactly one leading slash; an input that starts with a slash,
  however many, is appended to the prefix as it is. So "tel:123" comes back unchanged and
  "foo" gives the prefix followed by "/foo".
\<close>

theorem resolveUrl_cases:
  "(\<not> truthy url \<longrightarrow> resolveUrl env url = ''#'')
   \<and> (u \<noteq> [] \<and> matches_scheme u \<longrightarrow> resolveUrl env (Some u) = u)
   \<and> (u \<noteq> [] \<and> \<not> matches_scheme u \<and> \<not> startsWith u ''//''
        \<longrightarrow> resolveUrl env (Some u) = site_prefix env @ with_one_leading_slash u)
   \<and> (u \<noteq> [] \<and> \<not> matches_scheme u \<and> startsWith u ''/''
        \<longrightarrow> resolveUrl env (Some u) = site_prefix env @ u)
   \<and> resolveUrl env (Some []) = ''#''
   \<and> resolveUrl env (Some ''tel:123'') = ''tel:123''
   \<and> resolveUrl env (Some ''foo'') = site_prefix env @ ''/foo''"
proof (intro conjI impI)
  assume "\<not> truthy url"
  then show "resolveUrl env url = ''#''" by (simp add: resolveUrl_def)
next
  assume "u \<noteq> [] \<and> matches_scheme u"
  then show "resolveUrl env (Some u) = u" by (simp add: resolveUrl_def)
next
  assume a: "u \<noteq> [] \<and> \<not> matches_scheme u \<and> \<not> startsWith u ''//''"
  show "resolveUrl env (Some u) = site_prefix env @ with_one_leading_slash u"
  proof (cases "startsWith u ''/''")
    case True
    with a have "with_one_leading_slash u = u" by (simp add: one_slash_slashed)
    with a True show ?thesis by (simp add: resolveUrl_def site_prefix_def)
  next
    case False
    with a have "with_one_leading_slash u = ''/'' @ u" by (simp add: one_slash_unslashed)
    with a False show ?thesis by (simp add: resolveUrl_def site_prefix_def)
  qed
next
  assume "u \<noteq> [] \<and> \<not> matches_scheme u \<and> startsWith u ''/''"
  then show "resolveUrl env (Some u) = site_prefix env @ u"
    by (simp add: resolveUrl_def site_prefix_def)
next
  show "resolveUrl env (Some []) = ''#''" by (simp add: resolveUrl_def)
next
  show "resolveUrl env (Some ''tel:123'') = ''tel:123''"
    by (simp add: resolveUrl_def matches_scheme_def startsWith_def)
next
  show "resolveUrl env (Some ''foo'') = site_prefix env @ ''/foo''"
    by (simp add: resolveUrl_def matches_scheme_def startsWith_def site_prefix_def)
qed

theorem resolveUrl_cases_witness:
  "resolveUrl example_site None = ''#''
   \<and> resolveUrl example_site (Some ''mailto:shop@example.com'') = ''mailto:shop@example.com''
   \<and> resolveUrl example_site (Some ''sale/coats'') = ''/shop/sale/coats''
   \<and> resolveUrl example_site (Some ''/sale/coats'') = ''/shop/sale/coats''
   \<and> resolveUrl example_site (Some ''//cdn/x.png'') = ''/shop//cdn/x.png''
   \<and> resolveUrl example_site (Some ''foo'') = ''/shop/foo''"
  using resolveUrl_cases [where url = None and env = example_site and u = "''mailto:shop@example.com''"]
    resolveUrl_cases [where url = None and env = example_site and u = "''sale/coats''"]
    resolveUrl_cases [where url = None and env = example_site and u = "''/sale/coats''"]
    resolveUrl_cases [where url = None and env = example_site and u = "''//cdn/x.png''"]
  by (simp add: matches_scheme_def startsWith_def site_prefix_def with_one_leading_slash_def
      example_site_def)

section \<open>Content keys\<close>

lemma json_parse_k1: "json_parse ''k1'' = Inl SyntaxError"
  by (simp add: json_parse_def scan_start_def is_digit_def char_code_def)

lemma json_parse_123: "json_parse ''123'' = Inr (JNum 123)"
  by (simp add: json_parse_def scan_start_def is_digit_def char_code_def scan_after_number_def
      number_value_def digit_value_def)

lemma json_parse_id_object:
  \<open>json_parse ''{"title":"Coats","id":"k7"}'' = Inr (JObj [(''id'', JStr ''k7''), (''title'', JStr ''Coats'')])\<close>
  by (simp add: json_parse_def scan_start_def is_digit_def char_code_def)

lemma json_parse_no_key:
  \<open>json_parse ''{"title":"Coats"}'' = Inr (JObj [(''title'', JStr ''Coats'')])\<close>
  by (simp add: json_parse_def scan_start_def is_digit_def char_code_def)

text \<open>
  C9 says that a raw identifier is taken as the key itself, and that unparseable input gives
  \<^verbatim>\<open>null\<close>. The raw string is used only in the \<^verbatim>\<open>catch\<close> branch: the identifier \<^verbatim>\<open>123\<close> is
  valid JSON, parses to a number without the two properties, and gives \<^verbatim>\<open>null\<close>; and the
  string \<^verbatim>\<open>k1\<close>, which does not parse, gives not \<^verbatim>\<open>null\<close> but itself.
\<close>

theorem extractContentKey_counterexample:
  "extractContentKey example_site (JStr ''123'') = JNull
   \<and> JSON_parse example_site ''k1'' = Inl SyntaxError
   \<and> extractContentKey example_site (JStr ''k1'') = JStr ''k1''"
  by (simp add: extractContentKey_def example_site_def json_parse_123 json_parse_k1)

lemma extractContentKey_object: "extractContentKey env (JObj ps) = key_of ps"
  by (simp add: extractContentKey_def key_of_def field_def)

lemma extractContentKey_string:
  assumes "s \<noteq> []"
  shows "extractContentKey env (JStr s) =
           (case JSON_parse env s of
              Inl e \<Rightarrow> JStr s
            | Inr JNull \<Rightarrow> JStr s
            | Inr JUndefined \<Rightarrow> JStr s
            | Inr (JObj ps) \<Rightarrow> key_of ps
            | Inr v \<Rightarrow> JNull)"
  using assms
  by (simp add: extractContentKey_def key_of_def field_def split: sum.splits jsval.splits)

text \<open>
  C9, amended. \<^verbatim>\<open>extractContentKey\<close> never throws: it returns a value for every reference.
  A falsy reference (undefined, null, the empty string) gives \<^verbatim>\<open>null\<close>. An object, given
  directly or as the JSON text of an object, gives its \<^verbatim>\<open>contentKey\<close> when that is truthy,
  otherwise its \<^verbatim>\<open>id\<close> when that is truthy, otherwise \<^verbatim>\<open>null\<close>. A non-empty string gives
  itself exactly when parsing it throws or yields \<^verbatim>\<open>null\<close>; when it parses to a boolean, a
  number, a string or an array, the result is \<^verbatim>\<open>null\<close>, as it is for a reference that is a
  boolean, a number or an array. In particular the object with \<^verbatim>\<open>contentKey\<close> "k1", its JSON
  text and the bare string "k1" all give "k1".
\<close>

theorem extractContentKey_cases:
  \<open>(\<not> truthy_val contentRef \<longrightarrow> extractContentKey env contentRef = JNull)
   \<and> extractContentKey env (JObj ps) = key_of ps
   \<and> (s \<noteq> [] \<and> JSON_parse env s = Inr (JObj ps) \<longrightarrow> extractContentKey env (JStr s) = key_of ps)
   \<and> (s \<noteq> [] \<and> JSON_parse env s = Inl e \<longrightarrow> extractContentKey env (JStr s) = JStr s)
   \<and> (s \<noteq> [] \<and> JSON_parse env s = Inr JNull \<longrightarrow> extractContentKey env (JStr s) = JStr s)
   \<and> (s \<noteq> [] \<and> JSON_parse env s = Inr v \<and> v \<in> {JBool t, JNum x, JStr w, JArr xs}
        \<longrightarrow> extractContentKey env (JStr s) = JNull)
   \<and> (contentRef \<in> {JBool True, JArr xs} \<or> (contentRef = JNum x \<and> x \<noteq> 0)
        \<longrightarrow> extractContentKey env contentRef = JNull)
   \<and> extractContentKey (env\<lparr>JSON_parse := json_parse\<rparr>) (JObj [(''contentKey'', JStr ''k1'')])
       = JStr ''k1''
   \<and> extractContentKey (env\<lparr>JSON_parse := json_parse\<rparr>) (JStr ''{"contentKey":"k1"}'')
       = JStr ''k1''
   \<and> extractContentKey (env\<lparr>JSON_parse := json_parse\<rparr>) (JStr ''k1'') = JStr ''k1''\<close>
proof (intro conjI impI)
  assume "\<not> truthy_val contentRef"
  then show "extractContentKey env contentRef = JNull" by (simp add: extractContentKey_def)
next
  show "extractContentKey env (JObj ps) = key_of ps" by (rule extractContentKey_object)
next
  assume "s \<noteq> [] \<and> JSON_parse env s = Inr (JObj ps)"
  then show "extractContentKey env (JStr s) = key_of ps" by (simp add: extractContentKey_string)
next
  assume "s \<noteq> [] \<and> JSON_parse env s = Inl e"
  then show "extractContentKey env (JStr s) = JStr s" by (simp add: extractContentKey_string)
next
  assume "s \<noteq> [] \<and> JSON_parse env s = Inr JNull"
  then show "extractContentKey env (JStr s) = JStr s" by (simp add: extractContentKey_string)
next
  assume "s \<noteq> [] \<and> JSON_parse env s = Inr v \<and> v \<in> {JBool t, JNum x, JStr w, JArr xs}"
  then show "extractContentKey env (JStr s) = JNull" by (auto simp: extractContentKey_string)
next
  assume "contentRef \<in> {JBool True, JArr xs} \<or> (contentRef = JNum x \<and> x \<noteq> 0)"
  then show "extractContentKey env contentRef = JNull" by (auto simp: extractContentKey_def)
next
  show "extractContentKey (env\<lparr>JSON_parse := json_parse\<rparr>) (JObj [(''contentKey'', JStr ''k1'')])
       = JStr ''k1''"
    by (simp add: extractContentKey_object key_of_def field_def)
next
  show \<open>extractContentKey (env\<lparr>JSON_parse := json_parse\<rparr>) (JStr ''{"contentKey":"k1"}'')
       = JStr ''k1''\<close>
    by (simp add: extractContentKey_string json_parse_k1_object key_of_def field_def)
next
  show "extractContentKey (env\<lparr>JSON_parse := json_parse\<rparr>) (JStr ''k1'') = JStr ''k1''"
    by (simp add: extractContentKey_string json_parse_k1)
qed

theorem extractContentKey_cases_witness:
  \<open>extractContentKey example_site (JStr []) = JNull
   \<and> extractContentKey example_site (JObj [(''id'', JStr ''k7'')]) = JStr ''k7''
   \<and> extractContentKey example_site (JStr ''{"title":"Coats","id":"k7"}'') = JStr ''k7''
   \<and> extractContentKey example_site (JStr ''{"title":"Coats"}'') = JNull
   \<and> extractContentKey example_site (JStr ''k1'') = JStr ''k1''
   \<and> extractContentKey example_site (JStr ''123'') = JNull
   \<and> extractContentKey example_site (JBool True) = JNull\<close>
proof -
  note t = extractContentKey_cases [where env = example_site]
  have p: "JSON_parse example_site = json_parse" by (simp add: example_site_def)
  from t [where contentRef = "JStr []"]
  have 1: "extractContentKey example_site (JStr []) = JNull" by simp
  from t [where ps = "[(''id'', JStr ''k7'')]"]
  have 2: "extractContentKey example_site (JObj [(''id'', JStr ''k7'')]) = JStr ''k7''"
    by (simp add: key_of_def field_def)
  from t [where s = \<open>''{"title":"Coats","id":"k7"}''\<close>
      and ps = "[(''id'', JStr ''k7''), (''title'', JStr ''Coats'')]"]
  have 3: \<open>extractContentKey example_site (JStr ''{"title":"Coats","id":"k7"}'') = JStr ''k7''\<close>
    by (simp add: p json_parse_id_object key_of_def field_def)
  from t [where s = \<open>''{"title":"Coats"}''\<close> and ps = "[(''title'', JStr ''Coats'')]"]
  have 4: \<open>extractContentKey example_site (JStr ''{"title":"Coats"}'') = JNull\<close>
    by (simp add: p json_parse_no_key key_of_def field_def)
  from t [where s = "''k1''" and e = SyntaxError]
  have 5: "extractContentKey example_site (JStr ''k1'') = JStr ''k1''"
    by (simp add: p json_parse_k1)
  from t [where s = "''123''" and v = "JNum 123" and x = 123]
  have 6: "extractContentKey example_site (JStr ''123'') = JNull"
    by (simp add: p json_parse_123)
  from t [where contentRef = "JBool True"]
  have 7: "extractContentKey example_site (JBool True) = JNull" by simp
  from 1 2 3 4 5 6 7 show ?thesis by simp
qed

section \<open>Visitor identity\<close>

text \<open>
  A random number from 0 up to 1, 1 excluded, gives one of the sixteen hexadecimal digits,
  so the generated identifier has the shape of a version 4 UUID.
\<close>

lemma ToInt32_sixteenth:
  assumes "0 \<le> u" and "u < 1"
  shows "0 \<le> ToInt32 (u * 16) \<and> ToInt32 (u * 16) < 16"
proof -
  from assms have f: "0 \<le> \<lfloor>u * 16\<rfloor>" "\<lfloor>u * 16\<rfloor> < 16"
    by (simp_all add: floor_less_iff)
  then have "\<lfloor>u * 16\<rfloor> mod 2 ^ 32 = \<lfloor>u * 16\<rfloor>" by simp
  with f assms show ?thesis by (simp add: ToInt32_def Let_def)
qed

lemma small_int_cases:
  "0 \<le> (v::int) \<Longrightarrow> v < 16 \<Longrightarrow>
     v = 0 \<or> v = 1 \<or> v = 2 \<or> v = 3 \<or> v = 4 \<or> v = 5 \<or> v = 6 \<or> v = 7 \<or> v = 8 \<or> v = 9
     \<or> v = 10 \<or> v = 11 \<or> v = 12 \<or> v = 13 \<or> v = 14 \<or> v = 15"
  by arith

lemma toString16_x:
  assumes "0 \<le> v" and "v < 16"
  shows "\<exists>h. toString16 v = [h] \<and> h \<in> set ''0123456789abcdef''"
  using small_int_cases [OF assms]
  by (elim disjE) (simp_all add: toString16_def hex_digit_def)

lemma toString16_y:
  assumes "0 \<le> r" and "r < 16"
  shows "\<exists>h. toString16 ((r AND 3) OR 8) = [h] \<and> h \<in> set ''89ab''"
  using small_int_cases [OF assms]
  by (elim disjE) (simp_all add: toString16_def hex_digit_def)

lemma replace_xy_fits:
  assumes rnd: "\<forall>n. 0 \<le> Math_random env n \<and> Math_random env n < 1"
  shows "fits t (fst (replace_xy env t b))"
proof (induction t arbitrary: b)
  case Nil
  show ?case by simp
next
  case (Cons p t)
  let ?u = "Math_random env (draws b)"
  let ?b1 = "b\<lparr>draws := Suc (draws b)\<rparr>"
  from rnd have r: "0 \<le> ToInt32 (?u * 16) \<and> ToInt32 (?u * 16) < 16"
    by (simp add: ToInt32_sixteenth)
  show ?case
  proof (cases "p = CHR ''x''")
    case True
    from r obtain h where h: "toString16 (ToInt32 (?u * 16)) = [h]" "h \<in> set ''0123456789abcdef''"
      using toString16_x by blast
    have "fst (replace_xy env (p # t) b) = h # fst (replace_xy env t ?b1)"
      using True h(1) by (simp add: random_draw_def Let_def split: prod.splits)
    with True h(2) Cons.IH [of ?b1] show ?thesis by simp
  next
    case nx: False
    show ?thesis
    proof (cases "p = CHR ''y''")
      case True
      from r obtain h where h: "toString16 ((ToInt32 (?u * 16) AND 3) OR 8) = [h]" "h \<in> set ''89ab''"
        using toString16_y by blast
      have "fst (replace_xy env (p # t) b) = h # fst (replace_xy env t ?b1)"
        using True h(1) by (simp add: random_draw_def Let_def split: prod.splits)
      with True h(2) Cons.IH [of ?b1] show ?thesis by simp
    next
      case False
      with nx have "fst (replace_xy env (p # t) b) = p # fst (replace_xy env t b)"
        by (simp split: prod.splits)
      with nx False Cons.IH [of b] show ?thesis by simp
    qed
  qed
qed

lemma generateUUID_is_uuid_v4:
  "\<forall>n. 0 \<le> Math_random env n \<and> Math_random env n < 1 \<Longrightarrow> is_uuid_v4 (fst (generateUUID env b))"
  unfolding is_uuid_v4_def generateUUID_def by (rule replace_xy_fits)

lemma initializeVisitorId_present:
  assumes "truthy (items b STORAGE_KEY_VISITOR)" and "mode b \<noteq> AccessDenied"
  shows "initializeVisitorId env c b = Returns (c\<lparr>visitorId := items b STORAGE_KEY_VISITOR\<rparr>, b)"
  using assms by (simp add: initializeVisitorId_def getItem_def)

lemma initializeVisitorId_absent:
  assumes "\<not> truthy (items b STORAGE_KEY_VISITOR)" and "mode b = Available"
  shows "initializeVisitorId env c b =
           Returns (c\<lparr>visitorId := Some (fst (generateUUID env b))\<rparr>,
                    (snd (generateUUID env b))
                      \<lparr>items := (items b)(STORAGE_KEY_VISITOR \<mapsto> fst (generateUUID env b))\<rparr>)"
proof -
  obtain u b1 where g: "generateUUID env b = (u, b1)" by (cases "generateUUID env b")
  from generateUUID_frame [OF g] assms(2) have "mode b1 = Available" "items b1 = items b" by simp_all
  with assms g show ?thesis
    by (simp add: initializeVisitorId_def getItem_def setItem_def)
qed

lemma initializeVisitorId_denied:
  assumes "mode b = AccessDenied"
  shows "initializeVisitorId env c b = Throws SecurityError (c, b)"
  using assms by (simp add: initializeVisitorId_def getItem_def)

lemma initializeVisitorId_full:
  assumes "\<not> truthy (items b STORAGE_KEY_VISITOR)" and "mode b = QuotaExhausted"
  shows "initializeVisitorId env c b = Throws QuotaExceededError (c, snd (generateUUID env b))"
proof -
  obtain u b1 where g: "generateUUID env b = (u, b1)" by (cases "generateUUID env b")
  from generateUUID_frame [OF g] assms(2) have "mode b1 = QuotaExhausted" by simp
  with assms g show ?thesis
    by (simp add: initializeVisitorId_def getItem_def setItem_def)
qed

lemma example_site_random: "0 \<le> Math_random example_site n \<and> Math_random example_site n < 1"
proof -
  have "(7 * n + 3) mod 16 < 16" by simp
  then have "real ((7 * n + 3) mod 16) < 16" by (simp only: of_nat_less_numeral_iff)
  then show ?thesis by (simp add: example_site_def)
qed

lemma replace_xy_replaced:
  "replace_xy env t b = (replaced (Math_random env) (draws b) t, b\<lparr>draws := draws b + places t\<rparr>)"
proof (induction t arbitrary: b)
  case Nil
  show ?case by (simp add: places_def)
next
  case (Cons p t)
  show ?case
    using Cons.IH [of b] Cons.IH [of "b\<lparr>draws := Suc (draws b)\<rparr>"]
    by (auto simp: random_draw_def places_def Let_def)
qed

lemma example_digits:
  "replaced (\<lambda>n. real ((7 * n + 3) mod 16) / 16) 0 ''xxxxxxxx-xxxx-4xxx-yxxx-xxxxxxxxxxxx''
     = ''3a18f6d4-b290-47e5-83a1-8f6d4b2907e5''"
  by code_simp

lemma example_uuid:
  assumes "draws b = 0"
  shows "generateUUID example_site b = (''3a18f6d4-b290-47e5-83a1-8f6d4b2907e5'', b\<lparr>draws := 31\<rparr>)"
proof -
  have "Math_random example_site = (\<lambda>n. real ((7 * n + 3) mod 16) / 16)"
    by (simp add: example_site_def)
  moreover have "places ''xxxxxxxx-xxxx-4xxx-yxxx-xxxxxxxxxxxx'' = 31"
    by (simp add: places_def)
  ultimately show ?thesis
    using assms example_digits by (simp add: generateUUID_def replace_xy_replaced)
qed

text \<open>
  C7 says that a storage failure is taken as absence and never propagates. The method has no
  \<^verbatim>\<open>try\<close>: when \<^verbatim>\<open>setItem\<close> throws (the quota is exhausted) or localStorage cannot be
  accessed, the exception leaves \<^verbatim>\<open>initializeVisitorId\<close>, and the instance's visitor
  identifier stays unset.
\<close>

theorem storage_failure_propagates_counterexample:
  "initializeVisitorId example_site banner (first_visit\<lparr>mode := QuotaExhausted\<rparr>)
     = Throws QuotaExceededError (banner, first_visit\<lparr>mode := QuotaExhausted, draws := 31\<rparr>)
   \<and> initializeVisitorId example_site banner (returning_visit\<lparr>mode := AccessDenied\<rparr>)
     = Throws SecurityError (banner, returning_visit\<lparr>mode := AccessDenied\<rparr>)"
proof -
  have "draws (first_visit\<lparr>mode := QuotaExhausted\<rparr>) = 0" by (simp add: first_visit_def)
  then have "generateUUID example_site (first_visit\<lparr>mode := QuotaExhausted\<rparr>)
      = (''3a18f6d4-b290-47e5-83a1-8f6d4b2907e5'', first_visit\<lparr>mode := QuotaExhausted, draws := 31\<rparr>)"
    by (simp add: example_uuid)
  moreover have "items (first_visit\<lparr>mode := QuotaExhausted\<rparr>) STORAGE_KEY_VISITOR = None"
    by (simp add: first_visit_def)
  ultimately show ?thesis
    by (simp add: initializeVisitorId_def getItem_def setItem_def)
qed

text \<open>
  C7, amended. \<^verbatim>\<open>initializeVisitorId\<close> reads the key \<^verbatim>\<open>DXFORCE_VISITOR_ID\<close>. A non-empty
  value there becomes the visitor identifier and nothing is written. When the key is absent
  or empty and localStorage works, a new identifier is generated, stored under the key and
  returned; it has the shape of a version 4 UUID whenever the random numbers lie from 0 up to
  1, and generating it leaves the stored items alone. The method handles no error: when
  localStorage cannot be accessed the \<^verbatim>\<open>SecurityError\<close> propagates with nothing changed, and
  when the write fails the \<^verbatim>\<open>QuotaExceededError\<close> propagates after the identifier was
  generated, with no visitor identifier set.
\<close>

theorem initializeVisitorId_cases:
  "(truthy (items b STORAGE_KEY_VISITOR) \<and> mode b \<noteq> AccessDenied \<longrightarrow>
      initializeVisitorId env c b = Returns (c\<lparr>visitorId := items b STORAGE_KEY_VISITOR\<rparr>, b))
   \<and> (\<not> truthy (items b STORAGE_KEY_VISITOR) \<and> mode b = Available \<longrightarrow>
      initializeVisitorId env c b =
        Returns (c\<lparr>visitorId := Some (fst (generateUUID env b))\<rparr>,
                 (snd (generateUUID env b))
                   \<lparr>items := (items b)(STORAGE_KEY_VISITOR \<mapsto> fst (generateUUID env b))\<rparr>))
   \<and> ((\<forall>n. 0 \<le> Math_random env n \<and> Math_random env n < 1) \<longrightarrow>
      is_uuid_v4 (fst (generateUUID env b)))
   \<and> items (snd (generateUUID env b)) = items b
   \<and> (mode b = AccessDenied \<longrightarrow> initializeVisitorId env c b = Throws SecurityError (c, b))
   \<and> (\<not> truthy (items b STORAGE_KEY_VISITOR) \<and> mode b = QuotaExhausted \<longrightarrow>
      initializeVisitorId env c b = Throws QuotaExceededError (c, snd (generateUUID env b)))"
  using initializeVisitorId_present [of b env c] initializeVisitorId_absent [of b env c]
    generateUUID_is_uuid_v4 [of env b] initializeVisitorId_denied [of b env c]
    initializeVisitorId_full [of b env c]
    generateUUID_frame [of env b "fst (generateUUID env b)" "snd (generateUUID env b)"]
  by simp

theorem initializeVisitorId_cases_witness:
  "initializeVisitorId example_site banner returning_visit
     = Returns (banner\<lparr>visitorId := Some ''3a18f6d4-b290-4e7c-a5d3-1f806e4c2b97''\<rparr>, returning_visit)
   \<and> initializeVisitorId example_site banner first_visit
     = Returns (banner\<lparr>visitorId := Some ''3a18f6d4-b290-47e5-83a1-8f6d4b2907e5''\<rparr>,
         first_visit\<lparr>draws := 31,
           items := [''DXFORCE_VISITOR_ID'' \<mapsto> ''3a18f6d4-b290-47e5-83a1-8f6d4b2907e5'']\<rparr>)
   \<and> is_uuid_v4 ''3a18f6d4-b290-47e5-83a1-8f6d4b2907e5''
   \<and> initializeVisitorId example_site banner (returning_visit\<lparr>mode := AccessDenied\<rparr>)
     = Throws SecurityError (banner, returning_visit\<lparr>mode := AccessDenied\<rparr>)
   \<and> initializeVisitorId example_site banner (first_visit\<lparr>mode := QuotaExhausted\<rparr>)
     = Throws QuotaExceededError (banner, first_visit\<lparr>mode := QuotaExhausted, draws := 31\<rparr>)"
proof -
  note t = initializeVisitorId_cases [where env = example_site and c = banner]
  have r: "\<forall>n. 0 \<le> Math_random example_site n \<and> Math_random example_site n < 1"
    using example_site_random by blast
  have g1: "generateUUID example_site first_visit
      = (''3a18f6d4-b290-47e5-83a1-8f6d4b2907e5'', first_visit\<lparr>draws := 31\<rparr>)"
    by (rule example_uuid) (simp add: first_visit_def)
  have g2: "generateUUID example_site (first_visit\<lparr>mode := QuotaExhausted\<rparr>)
      = (''3a18f6d4-b290-47e5-83a1-8f6d4b2907e5'', first_visit\<lparr>mode := QuotaExhausted, draws := 31\<rparr>)"
    using example_uuid [of "first_visit\<lparr>mode := QuotaExhausted\<rparr>"] by (simp add: first_visit_def)
  have fv: "items first_visit = Map.empty" "mode first_visit = Available"
    by (simp_all add: first_visit_def)
  from t [where b = returning_visit]
  have 1: "initializeVisitorId example_site banner returning_visit
     = Returns (banner\<lparr>visitorId := Some ''3a18f6d4-b290-4e7c-a5d3-1f806e4c2b97''\<rparr>, returning_visit)"
    by (simp add: returning_visit_def STORAGE_KEY_VISITOR_def)
  from t [where b = first_visit] r
  have 2: "initializeVisitorId example_site banner first_visit
     = Returns (banner\<lparr>visitorId := Some ''3a18f6d4-b290-47e5-83a1-8f6d4b2907e5''\<rparr>,
         first_visit\<lparr>draws := 31,
           items := [''DXFORCE_VISITOR_ID'' \<mapsto> ''3a18f6d4-b290-47e5-83a1-8f6d4b2907e5'']\<rparr>)"
    and 3: "is_uuid_v4 ''3a18f6d4-b290-47e5-83a1-8f6d4b2907e5''"
    by (simp_all add: g1 fv STORAGE_KEY_VISITOR_def)
  from t [where b = "returning_visit\<lparr>mode := AccessDenied\<rparr>"]
  have 4: "initializeVisitorId example_site banner (returning_visit\<lparr>mode := AccessDenied\<rparr>)
     = Throws SecurityError (banner, returning_visit\<lparr>mode := AccessDenied\<rparr>)"
    by simp
  from t [where b = "first_visit\<lparr>mode := QuotaExhausted\<rparr>"]
  have 5: "initializeVisitorId example_site banner (first_visit\<lparr>mode := QuotaExhausted\<rparr>)
     = Throws QuotaExceededError (banner, first_visit\<lparr>mode := QuotaExhausted, draws := 31\<rparr>)"
    by (simp add: g2 fv)
  from 1 2 3 4 5 show ?thesis by simp
qed

section \<open>A first visit, end to end\<close>

text \<open>
  Test \<^verbatim>\<open>promo1\<close> in Auto mode with nothing stored. Connecting the banner stores a visitor
  identifier and the drawn variant, the first render pass reports the view, the second does
  not, and after a reload the same variant comes back and the view is not reported again: one
  call was dispatched in all.
\<close>

lemma first_visit_scenario:
  "run example_site [Connected, Rendered, Rendered, Reloaded banner, Connected, Rendered]
       (banner, first_visit)
     = (banner\<lparr>visitorId := Some ''3a18f6d4-b290-47e5-83a1-8f6d4b2907e5'',
               assignedVariant := Some ''B''\<rparr>,
        first_visit
          \<lparr>draws := 32,
           items := [''DXFORCE_VISITOR_ID'' \<mapsto> ''3a18f6d4-b290-47e5-83a1-8f6d4b2907e5'',
                     ''AB_TEST_ASSIGNMENT_promo1'' \<mapsto> ''B'',
                     ''AB_LOGGED_promo1_View'' \<mapsto> ''true''],
           calls := [(\<lparr>log_testId = Some ''promo1'', log_variant = Some ''B'',
                        log_actionType = ''View'',
                        log_visitorId = Some ''3a18f6d4-b290-47e5-83a1-8f6d4b2907e5''\<rparr>, Pending)]\<rparr>)"
proof -
  let ?u = "''3a18f6d4-b290-47e5-83a1-8f6d4b2907e5''"
  let ?c1 = "banner\<lparr>visitorId := Some ?u, assignedVariant := Some ''B''\<rparr>"
  let ?b1 = "first_visit\<lparr>draws := 32,
       items := [''DXFORCE_VISITOR_ID'' \<mapsto> ?u, ''AB_TEST_ASSIGNMENT_promo1'' \<mapsto> ''B'']\<rparr>"
  let ?b2 = "?b1\<lparr>items := (items ?b1)(''AB_LOGGED_promo1_View'' \<mapsto> ''true''),
       calls := [(\<lparr>log_testId = Some ''promo1'', log_variant = Some ''B'',
                        log_actionType = ''View'', log_visitorId = Some ?u\<rparr>, Pending)]\<rparr>"
  have g: "generateUUID example_site first_visit = (?u, first_visit\<lparr>draws := 31\<rparr>)"
    by (rule example_uuid) (simp add: first_visit_def)
  have v: "initializeVisitorId example_site banner first_visit
      = Returns (banner\<lparr>visitorId := Some ?u\<rparr>,
                 first_visit\<lparr>draws := 31, items := [''DXFORCE_VISITOR_ID'' \<mapsto> ?u]\<rparr>)"
    using initializeVisitorId_absent [of first_visit example_site banner]
    by (simp add: g) (simp add: first_visit_def STORAGE_KEY_VISITOR_def)
  have a: "initializeAssignment example_site (banner\<lparr>visitorId := Some ?u\<rparr>)
        (first_visit\<lparr>draws := 31, items := [''DXFORCE_VISITOR_ID'' \<mapsto> ?u]\<rparr>)
      = Returns (?c1, ?b1)"
    by (simp add: initializeAssignment_def banner_def first_visit_def example_site_def getItem_def
        setItem_def random_draw_def STORAGE_KEY_ASSIGNMENT_def Let_def)
  have 1: "connectedCallback example_site banner first_visit = Returns (?c1, ?b1)"
    by (simp add: connectedCallback_def v a)
  have 2: "renderedCallback ?c1 ?b1 = Returns (?c1, ?b2)"
    by (simp add: renderedCallback_def tryLogMetric_def logAction_def getItem_def setItem_def
        banner_def first_visit_def STORAGE_KEY_LOGGED_def Let_def)
  have 3: "renderedCallback ?c1 ?b2 = Returns (?c1, ?b2)"
    by (simp add: renderedCallback_def tryLogMetric_def getItem_def
        banner_def first_visit_def STORAGE_KEY_LOGGED_def Let_def)
  have 4: "connectedCallback example_site banner ?b2 = Returns (?c1, ?b2)"
    by (simp add: connectedCallback_def initializeVisitorId_def initializeAssignment_def getItem_def
        banner_def first_visit_def STORAGE_KEY_VISITOR_def STORAGE_KEY_ASSIGNMENT_def Let_def)
  from 1 2 3 4 show ?thesis
    by (simp add: fun_upd_twist first_visit_def)
qed

end
